theory Spec2Isabelle
  imports Complex_Main "HOL-Library.Word"
begin

section \<open>Numbers\<close>

text \<open>
  The renderer computes on JavaScript numbers. They are modelled as the real numbers
  extended by the two infinities and NaN, with exact arithmetic on the finite values:
  the rounding of IEEE doubles and the sign of zero are not part of this model. The sign of
  zero only decides the sign of the infinity that a division by zero returns; the two divisors
  of \<^verbatim>\<open>main.ts\<close> are the literal \<^verbatim>\<open>2.0\<close> and the canvas height, which is never a negative
  zero. The statements about the pixel of a projected point and about the bytes of a stored
  colour do not rest on the exact arithmetic: they name the number that the expression of
  the code evaluates to and speak of that number, so they say the same of the value that
  doubles give the expression.
\<close>

datatype number = Num real | NaN | PosInf | NegInf

fun inf_of :: "real \<Rightarrow> number" where
  "inf_of s = (if s = 0 then NaN else if 0 < s then PosInf else NegInf)"

instantiation number :: "{plus, minus, uminus, times, inverse, ord}"
begin

fun uminus_number :: "number \<Rightarrow> number" where
  "- Num a = Num (- a)"
| "- NaN = NaN"
| "- PosInf = NegInf"
| "- NegInf = PosInf"

fun plus_number :: "number \<Rightarrow> number \<Rightarrow> number" where
  "Num a + Num b = Num (a + b)"
| "Num a + PosInf = PosInf"
| "Num a + NegInf = NegInf"
| "PosInf + Num b = PosInf"
| "PosInf + PosInf = PosInf"
| "NegInf + Num b = NegInf"
| "NegInf + NegInf = NegInf"
| "(_ :: number) + _ = NaN"

definition minus_number :: "number \<Rightarrow> number \<Rightarrow> number" where
  "minus_number a b = a + (- b)"

fun times_number :: "number \<Rightarrow> number \<Rightarrow> number" where
  "Num a * Num b = Num (a * b)"
| "Num a * PosInf = inf_of a"
| "Num a * NegInf = inf_of (- a)"
| "PosInf * Num b = inf_of b"
| "NegInf * Num b = inf_of (- b)"
| "PosInf * PosInf = PosInf"
| "PosInf * NegInf = NegInf"
| "NegInf * PosInf = NegInf"
| "NegInf * NegInf = PosInf"
| "(_ :: number) * _ = NaN"

fun divide_number :: "number \<Rightarrow> number \<Rightarrow> number" where
  "divide_number (Num a) (Num b) = (if b = 0 then inf_of a else Num (a / b))"
| "divide_number (Num a) PosInf = Num 0"
| "divide_number (Num a) NegInf = Num 0"
| "divide_number PosInf (Num b) = (if 0 \<le> b then PosInf else NegInf)"
| "divide_number NegInf (Num b) = (if 0 \<le> b then NegInf else PosInf)"
| "divide_number _ _ = NaN"

definition inverse_number :: "number \<Rightarrow> number" where
  "inverse_number a = Num 1 div a"

fun less_eq_number :: "number \<Rightarrow> number \<Rightarrow> bool" where
  "Num a \<le> Num b = (a \<le> b)"
| "Num a \<le> PosInf = True"
| "NegInf \<le> Num b = True"
| "NegInf \<le> NegInf = True"
| "NegInf \<le> PosInf = True"
| "PosInf \<le> PosInf = True"
| "(_ :: number) \<le> _ = False"

fun less_number :: "number \<Rightarrow> number \<Rightarrow> bool" where
  "Num a < Num b = (a < b)"
| "Num a < PosInf = True"
| "NegInf < Num b = True"
| "NegInf < PosInf = True"
| "(_ :: number) < _ = False"

instance ..

end

text \<open>
  \<^verbatim>\<open>v >> 0\<close> is the conversion ToInt32 of ECMAScript followed by a shift by zero bits:
  NaN and the infinities become 0, a finite value loses its fraction towards zero and is then
  reduced modulo \<open>2^32\<close> into the signed 32-bit range.
\<close>

definition trunc :: "real \<Rightarrow> int" where
  "trunc v = (if 0 \<le> v then \<lfloor>v\<rfloor> else - \<lfloor>- v\<rfloor>)"

definition wrap32 :: "int \<Rightarrow> int" where
  "wrap32 k = (let m = k mod 2 ^ 32 in if 2 ^ 31 \<le> m then m - 2 ^ 32 else m)"

fun toInt32 :: "number \<Rightarrow> int" where
  "toInt32 (Num v) = wrap32 (trunc v)"
| "toInt32 _ = 0"

text \<open>
  The pixel data of an \<^verbatim>\<open>ImageData\<close> is a \<^verbatim>\<open>Uint8ClampedArray\<close>. Storing a number in it
  applies ToUint8Clamp: NaN becomes 0, the value is clamped to 0..255 and rounded to the
  nearest integer, a tie going to the even neighbour.
\<close>

type_synonym u8 = "8 word"

fun toUint8Clamp :: "number \<Rightarrow> u8" where
  "toUint8Clamp (Num v) =
     (if v \<le> 0 then 0
      else if 255 \<le> v then 255
      else let f = \<lfloor>v\<rfloor> in
        if of_int f + 1 / 2 < v then word_of_int (f + 1)
        else if v < of_int f + 1 / 2 then word_of_int f
        else if even f then word_of_int f else word_of_int (f + 1))"
| "toUint8Clamp PosInf = 255"
| "toUint8Clamp _ = 0"

text \<open>
  An indexed store into a typed array never resizes it and never throws: a store at an index
  outside \<open>0 ..< length\<close> is dropped.
\<close>

definition typed_set :: "u8 list \<Rightarrow> int \<Rightarrow> number \<Rightarrow> u8 list" where
  "typed_set buf i v =
     (if 0 \<le> i \<and> i < int (length buf) then buf[nat i := toUint8Clamp v] else buf)"



section \<open>Scene data\<close>

datatype Vector2 = Vector2 (v2x: number) (v2y: number)

datatype Vector3 = Vector3 (v3x: number) (v3y: number) (v3z: number)

datatype Color4 = Color4 (cr: number) (cg: number) (cb: number) (ca: number)

record Camera =
  cam_Position :: Vector3
  cam_Target :: Vector3

text \<open>
  The vertices of a mesh have the type \<^verbatim>\<open>Vector3[]\<close>: a list of vectors, without holes.
\<close>

record Mesh =
  name :: string
  Position :: Vector3
  Rotation :: Vector3
  Vertices :: "Vector3 list"

text \<open>
  \<^verbatim>\<open>math.ts\<close> is imported by \<^verbatim>\<open>main.ts\<close> but is not among the sources. Its operations are
  parameters of the model: every theorem below holds for any pure implementation of them,
  over any representation \<open>'m\<close> of the 4x4 matrices.
\<close>

record 'm math =
  Zero :: Vector3
  Up :: Vector3
  LookAtLH :: "Vector3 \<Rightarrow> Vector3 \<Rightarrow> Vector3 \<Rightarrow> 'm"
  PerspectiveFovLH :: "number \<Rightarrow> number \<Rightarrow> number \<Rightarrow> number \<Rightarrow> 'm"
  RotationYawPitchRoll :: "number \<Rightarrow> number \<Rightarrow> number \<Rightarrow> 'm"
  Translation :: "number \<Rightarrow> number \<Rightarrow> number \<Rightarrow> 'm"
  multiply :: "'m \<Rightarrow> 'm \<Rightarrow> 'm"
  TransformCoordinates :: "Vector3 \<Rightarrow> 'm \<Rightarrow> Vector3"

definition Camera_new :: "'m math \<Rightarrow> Camera" where
  "Camera_new M = \<lparr>cam_Position = Zero M, cam_Target = Zero M\<rparr>"

section \<open>The device\<close>

text \<open>
  The device keeps the two working sizes, read from the canvas by the constructor, and the
  back buffer, which is undefined until \<^verbatim>\<open>clear\<close> has run. Reading \<^verbatim>\<open>.data\<close> of the
  undefined back buffer throws a TypeError. The canvas and its 2D context are the display
  surface outside the renderer; \<^verbatim>\<open>getImageData\<close> throws an IndexSizeError for an empty
  rectangle and otherwise returns a fresh image of the requested size, which after
  \<^verbatim>\<open>clearRect\<close> over the same rectangle is transparent black. What the canvas shows, and
  with it \<^verbatim>\<open>present\<close>, which hands the buffer to the canvas, is left out.
\<close>

datatype error = TypeError | IndexSizeError

record ImageData =
  img_width :: nat
  img_height :: nat
  data :: "u8 list"

record Device =
  workingWidth :: nat
  workingHeight :: nat
  backbuffer :: "ImageData option"
  backbufferdata :: "u8 list option"

definition Device_new :: "nat \<Rightarrow> nat \<Rightarrow> Device" where
  "Device_new canvas_width canvas_height =
     \<lparr>workingWidth = canvas_width, workingHeight = canvas_height,
      backbuffer = None, backbufferdata = None\<rparr>"

definition clear :: "Device \<Rightarrow> error + Device" where
  "clear d =
     (if workingWidth d = 0 \<or> workingHeight d = 0 then Inl IndexSizeError
      else Inr (d\<lparr>backbuffer := Some
        \<lparr>img_width = workingWidth d, img_height = workingHeight d,
         data = replicate (workingWidth d * workingHeight d * 4) 0\<rparr>\<rparr>))"

definition pixel_index :: "Device \<Rightarrow> number \<Rightarrow> number \<Rightarrow> int" where
  "pixel_index d x y = (toInt32 x + toInt32 y * int (workingWidth d)) * 4"

definition putPixel :: "Device \<Rightarrow> number \<Rightarrow> number \<Rightarrow> Color4 \<Rightarrow> error + Device" where
  "putPixel d x y color =
     (case backbuffer d of
        None \<Rightarrow> Inl TypeError
      | Some img \<Rightarrow>
          let index = pixel_index d x y;
              b0 = data img;
              b1 = typed_set b0 index (cr color * Num 255);
              b2 = typed_set b1 (index + 1) (cg color * Num 255);
              b3 = typed_set b2 (index + 2) (cb color * Num 255);
              b4 = typed_set b3 (index + 3) (ca color * Num 255)
          in Inr (d\<lparr>backbuffer := Some (img\<lparr>data := b4\<rparr>), backbufferdata := Some b4\<rparr>))"

text \<open>The four stores of putPixel, one after the other.\<close>

definition put4 :: "u8 list \<Rightarrow> int \<Rightarrow> Color4 \<Rightarrow> u8 list" where
  "put4 b index color =
     typed_set (typed_set (typed_set (typed_set b index (cr color * Num 255))
       (index + 1) (cg color * Num 255)) (index + 2) (cb color * Num 255))
       (index + 3) (ca color * Num 255)"

definition project :: "'m math \<Rightarrow> Device \<Rightarrow> Vector3 \<Rightarrow> 'm \<Rightarrow> Vector2" where
  "project M d coord transMat =
     (let point = TransformCoordinates M coord transMat;
          w = Num (real (workingWidth d));
          h = Num (real (workingHeight d));
          x = toInt32 (v3x point * w + w / Num 2);
          y = toInt32 (- v3y point * h + h / Num 2)
      in Vector2 (Num (of_int x)) (Num (of_int y)))"

definition in_bounds :: "Device \<Rightarrow> Vector2 \<Rightarrow> bool" where
  "in_bounds d point =
     (Num 0 \<le> v2x point \<and> Num 0 \<le> v2y point \<and> v2x point < Num (real (workingWidth d))
      \<and> v2y point < Num (real (workingHeight d)))"

definition drawPoint :: "Device \<Rightarrow> Vector2 \<Rightarrow> error + Device" where
  "drawPoint d point =
     (if in_bounds d point
      then putPixel d (v2x point) (v2y point) (Color4 (Num 1) (Num 1) (Num 0) (Num 1))
      else Inr d)"

text \<open>
  Two standing facts about a device. The sizes are those of a canvas, whose \<^verbatim>\<open>width\<close> and
  \<^verbatim>\<open>height\<close> attributes are limited to \<open>0 .. 2^31 - 1\<close>; and once \<^verbatim>\<open>clear\<close> has run there
  is a back buffer of four bytes for each pixel.
\<close>

definition canvas_size_ok :: "Device \<Rightarrow> bool" where
  "canvas_size_ok d = (workingWidth d < 2 ^ 31 \<and> workingHeight d < 2 ^ 31)"

definition buffer_ok :: "Device \<Rightarrow> bool" where
  "buffer_ok d =
     (case backbuffer d of
        None \<Rightarrow> False
      | Some img \<Rightarrow> length (data img) = workingWidth d * workingHeight d * 4)"

text \<open>
  \<^verbatim>\<open>render\<close> reads the camera and the meshes through references it was handed, so the
  objects it can reach are threaded through its iteration as one state: the device, the camera
  and the array of meshes. Each \<^verbatim>\<open>for\<close> statement is a recursion on its index variable that reads the
  array length again at every round, as the statement does; an exception ends the
  iteration at once.
\<close>

record scene =
  device :: Device
  camera :: Camera
  meshes :: "Mesh list"

function render_vertices :: "'m math \<Rightarrow> scene \<Rightarrow> nat \<Rightarrow> 'm \<Rightarrow> nat \<Rightarrow> error + scene" where
  "render_vertices M s index transformMatrix indexVertices =
     (let cMesh = meshes s ! index in
      if indexVertices < length (Vertices cMesh) then
        (let projectedPoint =
               project M (device s) (Vertices cMesh ! indexVertices) transformMatrix
         in case drawPoint (device s) projectedPoint of
              Inl e \<Rightarrow> Inl e
            | Inr d' \<Rightarrow>
                render_vertices M (s\<lparr>device := d'\<rparr>) index transformMatrix (indexVertices + 1))
      else Inr s)"
  by pat_completeness auto
termination
  by (relation "measure (\<lambda>(M, s, index, transformMatrix, indexVertices).
        length (Vertices (meshes s ! index)) - indexVertices)") auto

text \<open>
  The vertex loop assigns to nothing but the device: the camera and the meshes it returns
  are the ones it was given. The mesh loop terminates because of that: the length it
  compares its index with stays the same.
\<close>

lemma render_vertices_frame:
  "render_vertices M s index transformMatrix indexVertices = Inr s'
   \<Longrightarrow> meshes s' = meshes s \<and> camera s' = camera s"
proof (induction M s index transformMatrix indexVertices rule: render_vertices.induct)
  case (1 M s index transformMatrix indexVertices)
  show ?case
  proof (cases "indexVertices < length (Vertices (meshes s ! index))")
    case False
    with "1.prems" show ?thesis by (simp add: render_vertices.simps [of M s])
  next
    case True
    let ?p = "project M (device s) (Vertices (meshes s ! index) ! indexVertices) transformMatrix"
    from True "1.prems" obtain d' where
      d': "drawPoint (device s) ?p = Inr d'" and
      rec: "render_vertices M (s\<lparr>device := d'\<rparr>) index transformMatrix (indexVertices + 1) = Inr s'"
      by (auto simp: render_vertices.simps [of M s] Let_def split: sum.splits)
    from "1.IH" [OF refl True refl d' rec] show ?thesis by simp
  qed
qed

declare render_vertices.simps [simp del]

function render_meshes :: "'m math \<Rightarrow> scene \<Rightarrow> 'm \<Rightarrow> 'm \<Rightarrow> nat \<Rightarrow> error + scene" where
  "render_meshes M s viewMatrix projectionMatrix index =
     (if index < length (meshes s) then
        (let cMesh = meshes s ! index;
             worldMatrix = multiply M
               (RotationYawPitchRoll M
                  (v3y (Rotation cMesh)) (v3x (Rotation cMesh)) (v3z (Rotation cMesh)))
               (Translation M
                  (v3x (Position cMesh)) (v3y (Position cMesh)) (v3z (Position cMesh)));
             transformMatrix = multiply M (multiply M worldMatrix viewMatrix) projectionMatrix
         in case render_vertices M s index transformMatrix 0 of
              Inl e \<Rightarrow> Inl e
            | Inr s' \<Rightarrow> render_meshes M s' viewMatrix projectionMatrix (index + 1))
      else Inr s)"
  by pat_completeness auto
termination
proof (relation "measure (\<lambda>(M, s, viewMatrix, projectionMatrix, index).
        length (meshes s) - index)")
  show "wf (measure (\<lambda>(M :: 'm math, s, viewMatrix :: 'm, projectionMatrix :: 'm, index).
        length (meshes s) - index))"
    by simp
next
  fix M :: "'m math" and s viewMatrix projectionMatrix index cMesh worldMatrix
    transformMatrix s'
  assume "index < length (meshes s)"
    and "render_vertices M s index transformMatrix 0 = Inr s'"
  then show "((M, s', viewMatrix, projectionMatrix, index + 1),
              (M, s, viewMatrix, projectionMatrix, index))
          \<in> measure (\<lambda>(M, s, viewMatrix, projectionMatrix, index). length (meshes s) - index)"
    using render_vertices_frame [of M s index transformMatrix 0 s'] by simp
qed

declare render_meshes.simps [simp del]

definition render :: "'m math \<Rightarrow> Device \<Rightarrow> Camera \<Rightarrow> Mesh list \<Rightarrow> error + scene" where
  "render M d cam ms =
     (let s = \<lparr>device = d, camera = cam, meshes = ms\<rparr>;
          viewMatrix = LookAtLH M (cam_Position (camera s)) (cam_Target (camera s)) (Up M);
          projectionMatrix = PerspectiveFovLH M (Num (78 / 100))
            (Num (real (workingWidth d)) / Num (real (workingHeight d)))
            (Num (1 / 100)) (Num 1)
      in render_meshes M s viewMatrix projectionMatrix 0)"

text \<open>
  To say in which order \<^verbatim>\<open>render\<close> calls the math module, \<^verbatim>\<open>project\<close> and \<^verbatim>\<open>drawPoint\<close>,
  and how often, the same statements are written a second time with a list of the calls made
  so far, to which every call is appended when it is made, with its arguments. The arguments
  of a call are evaluated before it, and the receiver of a method before its arguments:
  \<^verbatim>\<open>Vector3.Up()\<close> comes before \<^verbatim>\<open>Matrix.LookAtLH\<close>, the rotation before the translation and
  both before their product. A call of the device is listed by its own name; the calls it
  makes in turn are not listed.
\<close>

datatype 'm call =
    Call_Up
  | Call_LookAtLH Vector3 Vector3 Vector3
  | Call_PerspectiveFovLH number number number number
  | Call_RotationYawPitchRoll number number number
  | Call_Translation number number number
  | Call_multiply 'm 'm
  | Call_project Vector3 'm
  | Call_drawPoint Vector2

function render_vertices_log ::
  "'m math \<Rightarrow> 'm call list \<Rightarrow> scene \<Rightarrow> nat \<Rightarrow> 'm \<Rightarrow> nat \<Rightarrow> 'm call list \<times> (error + scene)" where
  "render_vertices_log M calls s index transformMatrix indexVertices =
     (let cMesh = meshes s ! index in
      if indexVertices < length (Vertices cMesh) then
        (let projectedPoint =
               project M (device s) (Vertices cMesh ! indexVertices) transformMatrix;
             calls' = calls @ [Call_project (Vertices cMesh ! indexVertices) transformMatrix,
                           Call_drawPoint projectedPoint]
         in case drawPoint (device s) projectedPoint of
              Inl e \<Rightarrow> (calls', Inl e)
            | Inr d' \<Rightarrow>
                render_vertices_log M calls' (s\<lparr>device := d'\<rparr>) index transformMatrix
                  (indexVertices + 1))
      else (calls, Inr s))"
  by pat_completeness auto
termination
  by (relation "measure (\<lambda>(M, calls, s, index, transformMatrix, indexVertices).
        length (Vertices (meshes s ! index)) - indexVertices)") auto

text \<open>The vertex iteration with the list assigns to nothing but the device and the list.\<close>

lemma render_vertices_log_frame:
  "render_vertices_log M calls s index transformMatrix indexVertices = (calls', Inr s')
   \<Longrightarrow> meshes s' = meshes s \<and> camera s' = camera s"
proof (induction M calls s index transformMatrix indexVertices
    arbitrary: calls' rule: render_vertices_log.induct)
  case (1 M calls s index transformMatrix indexVertices)
  show ?case
  proof (cases "indexVertices < length (Vertices (meshes s ! index))")
    case False
    with "1.prems" show ?thesis by (simp add: render_vertices_log.simps [of M calls s])
  next
    case True
    let ?v = "Vertices (meshes s ! index) ! indexVertices"
    let ?p = "project M (device s) ?v transformMatrix"
    let ?calls = "calls @ [Call_project ?v transformMatrix, Call_drawPoint ?p]"
    from True "1.prems" obtain d' where
      d': "drawPoint (device s) ?p = Inr d'" and
      rec: "render_vertices_log M ?calls (s\<lparr>device := d'\<rparr>) index transformMatrix
              (indexVertices + 1) = (calls', Inr s')"
      by (auto simp: render_vertices_log.simps [of M calls s] Let_def split: sum.splits)
    from "1.IH" [OF refl True refl refl d' rec] show ?thesis by simp
  qed
qed

declare render_vertices_log.simps [simp del]

function render_meshes_log ::
  "'m math \<Rightarrow> 'm call list \<Rightarrow> scene \<Rightarrow> 'm \<Rightarrow> 'm \<Rightarrow> nat \<Rightarrow> 'm call list \<times> (error + scene)" where
  "render_meshes_log M calls s viewMatrix projectionMatrix index =
     (if index < length (meshes s) then
        (let cMesh = meshes s ! index;
             rotation = RotationYawPitchRoll M
               (v3y (Rotation cMesh)) (v3x (Rotation cMesh)) (v3z (Rotation cMesh));
             translation = Translation M
               (v3x (Position cMesh)) (v3y (Position cMesh)) (v3z (Position cMesh));
             worldMatrix = multiply M rotation translation;
             worldView = multiply M worldMatrix viewMatrix;
             transformMatrix = multiply M worldView projectionMatrix;
             calls' = calls @
               [Call_RotationYawPitchRoll
                  (v3y (Rotation cMesh)) (v3x (Rotation cMesh)) (v3z (Rotation cMesh)),
                Call_Translation
                  (v3x (Position cMesh)) (v3y (Position cMesh)) (v3z (Position cMesh)),
                Call_multiply rotation translation,
                Call_multiply worldMatrix viewMatrix,
                Call_multiply worldView projectionMatrix]
         in case render_vertices_log M calls' s index transformMatrix 0 of
              (calls'', Inl e) \<Rightarrow> (calls'', Inl e)
            | (calls'', Inr s') \<Rightarrow>
                render_meshes_log M calls'' s' viewMatrix projectionMatrix (index + 1))
      else (calls, Inr s))"
  by pat_completeness auto
termination
  by (relation "measure (\<lambda>(M, calls, s, viewMatrix, projectionMatrix, index).
        length (meshes s) - index)")
    (auto dest!: render_vertices_log_frame [OF sym])

declare render_meshes_log.simps [simp del]

definition render_log ::
  "'m math \<Rightarrow> Device \<Rightarrow> Camera \<Rightarrow> Mesh list \<Rightarrow> 'm call list \<times> (error + scene)" where
  "render_log M d cam ms =
     (let s = \<lparr>device = d, camera = cam, meshes = ms\<rparr>;
          up = Up M;
          viewMatrix = LookAtLH M (cam_Position (camera s)) (cam_Target (camera s)) up;
          projectionMatrix = PerspectiveFovLH M (Num (78 / 100))
            (Num (real (workingWidth d)) / Num (real (workingHeight d)))
            (Num (1 / 100)) (Num 1);
          calls = [Call_Up,
                   Call_LookAtLH (cam_Position (camera s)) (cam_Target (camera s)) up,
                   Call_PerspectiveFovLH (Num (78 / 100))
                     (Num (real (workingWidth d)) / Num (real (workingHeight d)))
                     (Num (1 / 100)) (Num 1)]
      in render_meshes_log M calls s viewMatrix projectionMatrix 0)"

section \<open>The pipeline in the words of the specification\<close>

text \<open>
  The specification describes a frame as: build the view and the projection matrix once,
  then for each mesh, in order, build world = rotation \<cdot> translation and
  transform = world \<cdot> view \<cdot> projection, and for each of its vertices, in order, project the
  vertex and draw the point. \<open>render_spec\<close> follows these words: it lists the pairs of a
  vertex and its transform in that order and draws them one after the other.
\<close>

definition world_matrix :: "'m math \<Rightarrow> Mesh \<Rightarrow> 'm" where
  "world_matrix M mesh =
     multiply M
       (RotationYawPitchRoll M (v3y (Rotation mesh)) (v3x (Rotation mesh)) (v3z (Rotation mesh)))
       (Translation M (v3x (Position mesh)) (v3y (Position mesh)) (v3z (Position mesh)))"

definition transform_matrix :: "'m math \<Rightarrow> 'm \<Rightarrow> 'm \<Rightarrow> Mesh \<Rightarrow> 'm" where
  "transform_matrix M view projection mesh =
     multiply M (multiply M (world_matrix M mesh) view) projection"

fun draw_all :: "'m math \<Rightarrow> Device \<Rightarrow> (Vector3 \<times> 'm) list \<Rightarrow> error + Device" where
  "draw_all M d [] = Inr d"
| "draw_all M d ((v, t) # rest) =
     (case drawPoint d (project M d v t) of
        Inl e \<Rightarrow> Inl e
      | Inr d' \<Rightarrow> draw_all M d' rest)"

definition render_spec :: "'m math \<Rightarrow> Device \<Rightarrow> Camera \<Rightarrow> Mesh list \<Rightarrow> error + Device" where
  "render_spec M d cam ms =
     (let view = LookAtLH M (cam_Position cam) (cam_Target cam) (Up M);
          projection = PerspectiveFovLH M (Num (78 / 100))
            (Num (real (workingWidth d)) / Num (real (workingHeight d)))
            (Num (1 / 100)) (Num 1)
      in draw_all M d
           (concat (map (\<lambda>mesh. map (\<lambda>v. (v, transform_matrix M view projection mesh))
                                     (Vertices mesh)) ms)))"

text \<open>
  The calls of a frame as the specification describes them: the view and the projection
  matrix are built once, before the first mesh; then for each mesh, in the order of the
  array, the rotation from the angles y, x and z, the translation from the position,
  world = rotation \<cdot> translation, world \<cdot> view and transform = (world \<cdot> view) \<cdot> projection;
  then for each vertex of the mesh, in the order of its array, the projection of the vertex
  with that transform and the drawing of the projected point.
\<close>

fun builds_view :: "'m call \<Rightarrow> bool" where
  "builds_view (Call_LookAtLH eye target up) = True"
| "builds_view _ = False"

fun builds_projection :: "'m call \<Rightarrow> bool" where
  "builds_projection (Call_PerspectiveFovLH fov aspect znear zfar) = True"
| "builds_projection _ = False"

definition vertex_calls :: "'m math \<Rightarrow> Device \<Rightarrow> 'm \<Rightarrow> Vector3 list \<Rightarrow> 'm call list" where
  "vertex_calls M d transform vs =
     concat (map (\<lambda>v. [Call_project v transform, Call_drawPoint (project M d v transform)]) vs)"

definition mesh_header :: "'m math \<Rightarrow> 'm \<Rightarrow> 'm \<Rightarrow> Mesh \<Rightarrow> 'm call list" where
  "mesh_header M view projection mesh =
     [Call_RotationYawPitchRoll
        (v3y (Rotation mesh)) (v3x (Rotation mesh)) (v3z (Rotation mesh)),
      Call_Translation (v3x (Position mesh)) (v3y (Position mesh)) (v3z (Position mesh)),
      Call_multiply
        (RotationYawPitchRoll M (v3y (Rotation mesh)) (v3x (Rotation mesh)) (v3z (Rotation mesh)))
        (Translation M (v3x (Position mesh)) (v3y (Position mesh)) (v3z (Position mesh))),
      Call_multiply (world_matrix M mesh) view,
      Call_multiply (multiply M (world_matrix M mesh) view) projection]"

definition mesh_calls :: "'m math \<Rightarrow> Device \<Rightarrow> 'm \<Rightarrow> 'm \<Rightarrow> Mesh \<Rightarrow> 'm call list" where
  "mesh_calls M d view projection mesh =
     (let rotation = RotationYawPitchRoll M
            (v3y (Rotation mesh)) (v3x (Rotation mesh)) (v3z (Rotation mesh));
          translation = Translation M
            (v3x (Position mesh)) (v3y (Position mesh)) (v3z (Position mesh));
          world = multiply M rotation translation;
          transform = multiply M (multiply M world view) projection
      in [Call_RotationYawPitchRoll
            (v3y (Rotation mesh)) (v3x (Rotation mesh)) (v3z (Rotation mesh)),
          Call_Translation (v3x (Position mesh)) (v3y (Position mesh)) (v3z (Position mesh)),
          Call_multiply rotation translation,
          Call_multiply world view,
          Call_multiply (multiply M world view) projection]
         @ vertex_calls M d transform (Vertices mesh))"

definition spec_calls :: "'m math \<Rightarrow> Device \<Rightarrow> Camera \<Rightarrow> Mesh list \<Rightarrow> 'm call list" where
  "spec_calls M d cam ms =
     (let view = LookAtLH M (cam_Position cam) (cam_Target cam) (Up M);
          projection = PerspectiveFovLH M (Num (78 / 100))
            (Num (real (workingWidth d)) / Num (real (workingHeight d)))
            (Num (1 / 100)) (Num 1)
      in [Call_Up,
          Call_LookAtLH (cam_Position cam) (cam_Target cam) (Up M),
          Call_PerspectiveFovLH (Num (78 / 100))
            (Num (real (workingWidth d)) / Num (real (workingHeight d)))
            (Num (1 / 100)) (Num 1)]
         @ concat (map (mesh_calls M d view projection) ms))"



section \<open>A math module\<close>

text \<open>
  \<^verbatim>\<open>math.ts\<close> is missing, and the definitions of this section follow section 4.1 of the
  specification. A matrix is the list of its sixteen entries, row after row, and a point
  is a row vector, so that the translation is the fourth row. They are one instance of the
  parameter \<open>M\<close>, on which the theorems are evaluated.
\<close>

type_synonym Matrix = "number list"

text \<open>
  \<^verbatim>\<open>Math.sqrt\<close>, \<^verbatim>\<open>Math.sin\<close>, \<^verbatim>\<open>Math.cos\<close> and \<^verbatim>\<open>Math.tan\<close> on the numbers of the
  model.
\<close>

fun js_sqrt :: "number \<Rightarrow> number" where
  "js_sqrt (Num a) = (if a < 0 then NaN else Num (sqrt a))"
| "js_sqrt PosInf = PosInf"
| "js_sqrt _ = NaN"

fun js_sin :: "number \<Rightarrow> number" where
  "js_sin (Num a) = Num (sin a)"
| "js_sin _ = NaN"

fun js_cos :: "number \<Rightarrow> number" where
  "js_cos (Num a) = Num (cos a)"
| "js_cos _ = NaN"

fun js_tan :: "number \<Rightarrow> number" where
  "js_tan (Num a) = Num (tan a)"
| "js_tan _ = NaN"

text \<open>Modelled from the spec: \<^verbatim>\<open>Vector3.Zero()\<close> of the missing \<^verbatim>\<open>math.ts\<close> returns (0,0,0).\<close>

definition Vector3_Zero :: Vector3 where
  "Vector3_Zero = Vector3 (Num 0) (Num 0) (Num 0)"

text \<open>
  Modelled from the spec: \<^verbatim>\<open>Vector3.Up()\<close> of the missing \<^verbatim>\<open>math.ts\<close> returns (0,1,0), the
  fixed world-up reference.
\<close>

definition Vector3_Up :: Vector3 where
  "Vector3_Up = Vector3 (Num 0) (Num 1) (Num 0)"

text \<open>
  Modelled from the spec: the difference, the dot product, the cross product and the
  normalisation of vectors, which the description of \<^verbatim>\<open>LookAtLH\<close> in the missing
  \<^verbatim>\<open>math.ts\<close> uses. The division by the length is not guarded.
\<close>

definition Vector3_subtract :: "Vector3 \<Rightarrow> Vector3 \<Rightarrow> Vector3" where
  "Vector3_subtract a b = Vector3 (v3x a - v3x b) (v3y a - v3y b) (v3z a - v3z b)"

definition Vector3_Dot :: "Vector3 \<Rightarrow> Vector3 \<Rightarrow> number" where
  "Vector3_Dot a b = v3x a * v3x b + v3y a * v3y b + v3z a * v3z b"

definition Vector3_Cross :: "Vector3 \<Rightarrow> Vector3 \<Rightarrow> Vector3" where
  "Vector3_Cross a b =
     Vector3 (v3y a * v3z b - v3z a * v3y b)
             (v3z a * v3x b - v3x a * v3z b)
             (v3x a * v3y b - v3y a * v3x b)"

definition Vector3_normalize :: "Vector3 \<Rightarrow> Vector3" where
  "Vector3_normalize a =
     (let len = js_sqrt (Vector3_Dot a a)
      in Vector3 (v3x a / len) (v3y a / len) (v3z a / len))"

text \<open>
  Modelled from the spec: \<^verbatim>\<open>Vector3.TransformCoordinates(v, M)\<close> of the missing \<^verbatim>\<open>math.ts\<close>
  applies the matrix to the point treated as homogeneous (x,y,z,1), divides by the
  resulting w component and returns a Vector3. A zero w is not a special case.
\<close>

definition Vector3_TransformCoordinates :: "Vector3 \<Rightarrow> Matrix \<Rightarrow> Vector3" where
  "Vector3_TransformCoordinates v m =
     (let x = v3x v * m ! 0 + v3y v * m ! 4 + v3z v * m ! 8 + m ! 12;
          y = v3x v * m ! 1 + v3y v * m ! 5 + v3z v * m ! 9 + m ! 13;
          z = v3x v * m ! 2 + v3y v * m ! 6 + v3z v * m ! 10 + m ! 14;
          w = v3x v * m ! 3 + v3y v * m ! 7 + v3z v * m ! 11 + m ! 15
      in Vector3 (x / w) (y / w) (z / w))"

text \<open>
  Modelled from the spec: \<^verbatim>\<open>Matrix.Translation(x, y, z)\<close> of the missing \<^verbatim>\<open>math.ts\<close> is the
  pure translation matrix with the identity as its rotation block; applied to a point p it
  yields p + (x,y,z).
\<close>

definition Matrix_Translation :: "number \<Rightarrow> number \<Rightarrow> number \<Rightarrow> Matrix" where
  "Matrix_Translation x y z =
     [Num 1, Num 0, Num 0, Num 0,
      Num 0, Num 1, Num 0, Num 0,
      Num 0, Num 0, Num 1, Num 0,
      x, y, z, Num 1]"

text \<open>
  Modelled from the spec: \<^verbatim>\<open>multiply\<close> of the missing \<^verbatim>\<open>math.ts\<close> is the standard product
  of 4x4 matrices; \<open>Matrix_entry a b i j\<close> is row \<open>i\<close> of \<open>a\<close> times column \<open>j\<close> of \<open>b\<close>.
\<close>

definition Matrix_entry :: "Matrix \<Rightarrow> Matrix \<Rightarrow> nat \<Rightarrow> nat \<Rightarrow> number" where
  "Matrix_entry a b i j =
     a ! (4 * i) * b ! j + a ! (4 * i + 1) * b ! (4 + j)
       + a ! (4 * i + 2) * b ! (8 + j) + a ! (4 * i + 3) * b ! (12 + j)"

definition Matrix_multiply :: "Matrix \<Rightarrow> Matrix \<Rightarrow> Matrix" where
  "Matrix_multiply a b =
     [Matrix_entry a b 0 0, Matrix_entry a b 0 1, Matrix_entry a b 0 2, Matrix_entry a b 0 3,
      Matrix_entry a b 1 0, Matrix_entry a b 1 1, Matrix_entry a b 1 2, Matrix_entry a b 1 3,
      Matrix_entry a b 2 0, Matrix_entry a b 2 1, Matrix_entry a b 2 2, Matrix_entry a b 2 3,
      Matrix_entry a b 3 0, Matrix_entry a b 3 1, Matrix_entry a b 3 2, Matrix_entry a b 3 3]"

text \<open>
  Modelled from the spec: \<^verbatim>\<open>Matrix.RotationYawPitchRoll(yaw, pitch, roll)\<close> of the missing
  \<^verbatim>\<open>math.ts\<close> composes the rotations about Y (yaw), X (pitch) and Z (roll) into one matrix,
  in a fixed order; for row vectors the roll is applied first and the yaw last.
\<close>

definition Matrix_RotationX :: "number \<Rightarrow> Matrix" where
  "Matrix_RotationX angle =
     (let s = js_sin angle; c = js_cos angle
      in [Num 1, Num 0, Num 0, Num 0,
          Num 0, c, s, Num 0,
          Num 0, - s, c, Num 0,
          Num 0, Num 0, Num 0, Num 1])"

definition Matrix_RotationY :: "number \<Rightarrow> Matrix" where
  "Matrix_RotationY angle =
     (let s = js_sin angle; c = js_cos angle
      in [c, Num 0, - s, Num 0,
          Num 0, Num 1, Num 0, Num 0,
          s, Num 0, c, Num 0,
          Num 0, Num 0, Num 0, Num 1])"

definition Matrix_RotationZ :: "number \<Rightarrow> Matrix" where
  "Matrix_RotationZ angle =
     (let s = js_sin angle; c = js_cos angle
      in [c, s, Num 0, Num 0,
          - s, c, Num 0, Num 0,
          Num 0, Num 0, Num 1, Num 0,
          Num 0, Num 0, Num 0, Num 1])"

definition Matrix_RotationYawPitchRoll :: "number \<Rightarrow> number \<Rightarrow> number \<Rightarrow> Matrix" where
  "Matrix_RotationYawPitchRoll yaw pitch roll =
     Matrix_multiply (Matrix_multiply (Matrix_RotationZ roll) (Matrix_RotationX pitch))
       (Matrix_RotationY yaw)"

text \<open>
  Modelled from the spec: \<^verbatim>\<open>Matrix.LookAtLH(eye, target, up)\<close> of the missing \<^verbatim>\<open>math.ts\<close>
  computes forward = normalize(target - eye), right = normalize(cross(up, forward)) and
  trueUp = cross(forward, right), and assembles the rotation columns from (right, trueUp,
  forward) and the translation row from the negative dot products of eye with them.
\<close>

definition Matrix_LookAtLH :: "Vector3 \<Rightarrow> Vector3 \<Rightarrow> Vector3 \<Rightarrow> Matrix" where
  "Matrix_LookAtLH eye target up =
     (let forward = Vector3_normalize (Vector3_subtract target eye);
          right = Vector3_normalize (Vector3_Cross up forward);
          trueUp = Vector3_Cross forward right
      in [v3x right, v3x trueUp, v3x forward, Num 0,
          v3y right, v3y trueUp, v3y forward, Num 0,
          v3z right, v3z trueUp, v3z forward, Num 0,
          - Vector3_Dot right eye, - Vector3_Dot trueUp eye, - Vector3_Dot forward eye, Num 1])"

text \<open>
  Modelled from the spec: \<^verbatim>\<open>Matrix.PerspectiveFovLH(fov, aspect, zNear, zFar)\<close> of the missing
  \<^verbatim>\<open>math.ts\<close> is the standard left-handed perspective projection: scale-y = 1/tan(fov/2),
  scale-x = scale-y/aspect, and the depth terms that map z from zNear..zFar into [0,1].
\<close>

definition Matrix_PerspectiveFovLH :: "number \<Rightarrow> number \<Rightarrow> number \<Rightarrow> number \<Rightarrow> Matrix" where
  "Matrix_PerspectiveFovLH fov aspect znear zfar =
     (let scaleY = Num 1 / js_tan (fov / Num 2);
          scaleX = scaleY / aspect
      in [scaleX, Num 0, Num 0, Num 0,
          Num 0, scaleY, Num 0, Num 0,
          Num 0, Num 0, zfar / (zfar - znear), Num 1,
          Num 0, Num 0, - (znear * zfar) / (zfar - znear), Num 0])"

text \<open>Modelled from the spec: the missing \<^verbatim>\<open>math.ts\<close> as a whole, from the parts above.\<close>

definition spec_math :: "Matrix math" where
  "spec_math =
     \<lparr>Zero = Vector3_Zero, Up = Vector3_Up,
      LookAtLH = Matrix_LookAtLH, PerspectiveFovLH = Matrix_PerspectiveFovLH,
      RotationYawPitchRoll = Matrix_RotationYawPitchRoll, Translation = Matrix_Translation,
      multiply = Matrix_multiply, TransformCoordinates = Vector3_TransformCoordinates\<rparr>"

section \<open>Sample inputs\<close>

text \<open>A device of two by two pixels, as \<^verbatim>\<open>clear\<close> leaves it.\<close>

definition cleared_2x2 :: Device where
  "cleared_2x2 =
     \<lparr>workingWidth = 2, workingHeight = 2,
      backbuffer = Some \<lparr>img_width = 2, img_height = 2, data = replicate 16 0\<rparr>,
      backbufferdata = None\<rparr>"

text \<open>
  A camera on the z axis that looks at the origin, and a mesh of two vertices on that axis:
  the origin, and the position of the camera itself. The second one is divided by a zero
  \<open>w\<close>: its projection is NaN, which \<^verbatim>\<open>>> 0\<close> turns into the pixel \<open>(0, 0)\<close>.
  \<open>sample_transform\<close> is the transform of the mesh, \<open>sample_half\<close> and
  \<open>sample_rendered\<close> are the device after the first and after both vertices.
\<close>

definition sample_camera :: Camera where
  "sample_camera =
     \<lparr>cam_Position = Vector3 (Num 0) (Num 0) (Num 10),
      cam_Target = Vector3 (Num 0) (Num 0) (Num 0)\<rparr>"

definition sample_mesh :: Mesh where
  "sample_mesh =
     \<lparr>name = ''Axis'', Position = Vector3 (Num 0) (Num 0) (Num 0),
      Rotation = Vector3 (Num 0) (Num 0) (Num 0),
      Vertices = [Vector3 (Num 0) (Num 0) (Num 0), Vector3 (Num 0) (Num 0) (Num 10)]\<rparr>"

definition sample_transform :: Matrix where
  "sample_transform =
     [Num (- (1 / tan (39 / 100))), Num 0, Num 0, Num 0,
      Num 0, Num (1 / tan (39 / 100)), Num 0, Num 0,
      Num 0, Num 0, Num (- (100 / 99)), Num (- 1),
      Num 0, Num 0, Num (111 / 11), Num 10]"

definition sample_rendered :: Device where
  "sample_rendered =
     \<lparr>workingWidth = 2, workingHeight = 2,
      backbuffer = Some \<lparr>img_width = 2, img_height = 2,
        data = [255, 255, 0, 255, 0, 0, 0, 0, 0, 0, 0, 0, 255, 255, 0, 255]\<rparr>,
      backbufferdata = Some [255, 255, 0, 255, 0, 0, 0, 0, 0, 0, 0, 0, 255, 255, 0, 255]\<rparr>"

definition sample_half :: Device where
  "sample_half =
     \<lparr>workingWidth = 2, workingHeight = 2,
      backbuffer = Some \<lparr>img_width = 2, img_height = 2,
        data = [0, 0, 0, 0, 0, 0, 0, 0, 0, 0, 0, 0, 255, 255, 0, 255]\<rparr>,
      backbufferdata = Some [0, 0, 0, 0, 0, 0, 0, 0, 0, 0, 0, 0, 255, 255, 0, 255]\<rparr>"

section \<open>Facts about the conversions\<close>

lemma wrap32_id:
  assumes "- (2 ^ 31) \<le> k" and "k < 2 ^ 31"
  shows "wrap32 k = k"
proof (cases "0 \<le> k")
  case True
  with assms have "k mod 2 ^ 32 = k" by simp
  with assms show ?thesis by (simp add: wrap32_def)
next
  case False
  have "(k + 2 ^ 32) mod 2 ^ 32 = k + 2 ^ 32"
    using assms False by (intro mod_pos_pos_trivial) simp_all
  then have "k mod 2 ^ 32 = k + 2 ^ 32" by simp
  with assms False show ?thesis by (simp add: wrap32_def)
qed

lemma wrap32_range: "- (2 ^ 31) \<le> wrap32 k \<and> wrap32 k < 2 ^ 31"
  unfolding wrap32_def Let_def by auto

lemma trunc_of_int: "trunc (of_int k) = k"
  by (simp add: trunc_def)

lemma trunc_range:
  assumes "\<bar>v\<bar> < 2 ^ 31"
  shows "- (2 ^ 31) \<le> trunc v \<and> trunc v < 2 ^ 31"
proof (cases "0 \<le> v")
  case True
  with assms have "0 \<le> \<lfloor>v\<rfloor>" and "\<lfloor>v\<rfloor> < 2 ^ 31"
    by (simp_all add: floor_less_iff)
  with True show ?thesis by (simp add: trunc_def)
next
  case False
  with assms have lo: "0 \<le> \<lfloor>- v\<rfloor>" and hi: "\<lfloor>- v\<rfloor> < 2 ^ 31"
    by (simp_all add: floor_less_iff)
  from False have "trunc v = - \<lfloor>- v\<rfloor>" by (simp add: trunc_def)
  with lo hi show ?thesis by linarith
qed

lemma toInt32_trunc: "\<bar>v\<bar> < 2 ^ 31 \<Longrightarrow> toInt32 (Num v) = trunc v"
  using trunc_range [of v] by (simp add: wrap32_id)

lemma toInt32_of_int:
  "- (2 ^ 31) \<le> k \<Longrightarrow> k < 2 ^ 31 \<Longrightarrow> toInt32 (Num (of_int k)) = k"
  by (simp add: wrap32_id trunc_of_int)

lemma toInt32_range: "- (2 ^ 31) \<le> toInt32 v \<and> toInt32 v < 2 ^ 31"
  using wrap32_range by (cases v) simp_all

lemma replicate_16: "replicate 16 (0::u8) = [0, 0, 0, 0, 0, 0, 0, 0, 0, 0, 0, 0, 0, 0, 0, 0]"
  by (simp add: numeral_eq_Suc)





lemma length_typed_set: "length (typed_set buf i v) = length buf"
  by (simp add: typed_set_def)

lemma trunc_bounds: "0 \<le> v \<Longrightarrow> v < real n \<Longrightarrow> 0 \<le> trunc v \<and> trunc v < int n"
  by (simp add: trunc_def floor_less_iff)

lemma index_in_buffer:
  assumes "0 \<le> i" "i < int w" "0 \<le> j" "j < int h"
  shows "0 \<le> (i + j * int w) * 4 \<and> (i + j * int w) * 4 + 3 < int (w * h * 4)"
proof -
  have "j + 1 \<le> int h" using assms by simp
  then have "(j + 1) * int w \<le> int h * int w" using assms by (intro mult_right_mono) simp_all
  then have "i + j * int w < int h * int w" using assms by (simp add: algebra_simps)
  moreover have "0 \<le> j * int w" using assms by simp
  ultimately show ?thesis using assms by (simp add: algebra_simps)
qed


section \<open>Facts about putPixel\<close>

lemma putPixel_Some:
  "backbuffer d = Some img \<Longrightarrow>
   putPixel d x y color =
     Inr (d\<lparr>backbuffer := Some (img\<lparr>data := put4 (data img) (pixel_index d x y) color\<rparr>),
            backbufferdata := Some (put4 (data img) (pixel_index d x y) color)\<rparr>)"
  by (simp add: putPixel_def put4_def Let_def)

lemma putPixel_None: "backbuffer d = None \<Longrightarrow> putPixel d x y color = Inl TypeError"
  by (simp add: putPixel_def)

lemma length_put4: "length (put4 b index color) = length b"
  by (simp add: put4_def length_typed_set)

lemma typed_set_other: "int k \<noteq> i \<Longrightarrow> typed_set buf i v ! k = buf ! k"
  by (auto simp: typed_set_def)

lemma typed_set_same:
  "0 \<le> i \<Longrightarrow> i < int (length buf) \<Longrightarrow> int k = i \<Longrightarrow> typed_set buf i v ! k = toUint8Clamp v"
  by (auto simp: typed_set_def)

lemma put4_outside:
  assumes "int k < index \<or> index + 3 < int k"
  shows "put4 b index color ! k = b ! k"
proof -
  from assms have "int k \<noteq> index" "int k \<noteq> index + 1" "int k \<noteq> index + 2" "int k \<noteq> index + 3"
    by auto
  then show ?thesis by (simp add: put4_def typed_set_other)
qed

lemma put4_inside:
  assumes "0 \<le> index" and "index + 3 < int (length b)"
  shows "put4 b index color ! nat index = toUint8Clamp (cr color * Num 255)
    \<and> put4 b index color ! (nat index + 1) = toUint8Clamp (cg color * Num 255)
    \<and> put4 b index color ! (nat index + 2) = toUint8Clamp (cb color * Num 255)
    \<and> put4 b index color ! (nat index + 3) = toUint8Clamp (ca color * Num 255)"
  using assms by (simp add: put4_def typed_set_other typed_set_same length_typed_set)


section \<open>Facts about the iteration\<close>

lemma putPixel_keeps:
  assumes "putPixel d x y color = Inr d'"
  shows "workingWidth d' = workingWidth d \<and> workingHeight d' = workingHeight d
    \<and> (buffer_ok d \<longrightarrow> buffer_ok d')"
proof (cases "backbuffer d")
  case None
  with assms show ?thesis by (simp add: putPixel_None)
next
  case (Some img)
  from assms show ?thesis
    unfolding putPixel_Some [OF Some] by (auto simp: buffer_ok_def Some length_put4)
qed

lemma drawPoint_keeps:
  assumes "drawPoint d p = Inr d'"
  shows "workingWidth d' = workingWidth d \<and> workingHeight d' = workingHeight d
    \<and> (buffer_ok d \<longrightarrow> buffer_ok d')"
  using assms putPixel_keeps by (auto simp: drawPoint_def split: if_splits)

lemma render_vertices_keeps:
  "render_vertices M s index transformMatrix indexVertices = Inr s'
   \<Longrightarrow> workingWidth (device s') = workingWidth (device s)
     \<and> workingHeight (device s') = workingHeight (device s)
     \<and> (buffer_ok (device s) \<longrightarrow> buffer_ok (device s'))"
proof (induction M s index transformMatrix indexVertices rule: render_vertices.induct)
  case (1 M s index transformMatrix indexVertices)
  show ?case
  proof (cases "indexVertices < length (Vertices (meshes s ! index))")
    case False
    with "1.prems" show ?thesis by (simp add: render_vertices.simps [of M s])
  next
    case True
    let ?p = "project M (device s) (Vertices (meshes s ! index) ! indexVertices) transformMatrix"
    from True "1.prems" obtain d' where
      d': "drawPoint (device s) ?p = Inr d'" and
      rec: "render_vertices M (s\<lparr>device := d'\<rparr>) index transformMatrix (indexVertices + 1) = Inr s'"
      by (auto simp: render_vertices.simps [of M s] Let_def split: sum.splits)
    from "1.IH" [OF refl True refl d' rec] drawPoint_keeps [OF d'] show ?thesis by simp
  qed
qed

lemma render_meshes_keeps:
  "render_meshes M s viewMatrix projectionMatrix index = Inr s'
   \<Longrightarrow> workingWidth (device s') = workingWidth (device s)
     \<and> workingHeight (device s') = workingHeight (device s)
     \<and> (buffer_ok (device s) \<longrightarrow> buffer_ok (device s'))
     \<and> camera s' = camera s \<and> meshes s' = meshes s"
proof (induction M s viewMatrix projectionMatrix index rule: render_meshes.induct)
  case (1 M s viewMatrix projectionMatrix index)
  show ?case
  proof (cases "index < length (meshes s)")
    case False
    with "1.prems" show ?thesis by (simp add: render_meshes.simps [of M s])
  next
    case True
    let ?t = "multiply M (multiply M (multiply M
               (RotationYawPitchRoll M
                  (v3y (Rotation (meshes s ! index))) (v3x (Rotation (meshes s ! index)))
                  (v3z (Rotation (meshes s ! index))))
               (Translation M
                  (v3x (Position (meshes s ! index))) (v3y (Position (meshes s ! index)))
                  (v3z (Position (meshes s ! index))))) viewMatrix) projectionMatrix"
    from True "1.prems" obtain s1 where
      s1: "render_vertices M s index ?t 0 = Inr s1" and
      rec: "render_meshes M s1 viewMatrix projectionMatrix (index + 1) = Inr s'"
      by (auto simp: render_meshes.simps [of M s] Let_def split: sum.splits)
    from "1.IH" [OF True refl refl refl s1 rec] render_vertices_keeps [OF s1]
      render_vertices_frame [OF s1]
    show ?thesis by simp
  qed
qed

text \<open>A finite point inside the buffer is drawn in yellow.\<close>

lemma drawPoint_inside:
  assumes "0 \<le> x" and "x < real (workingWidth d)" and "0 \<le> y" and "y < real (workingHeight d)"
    and "index = (trunc y * int (workingWidth d) + trunc x) * 4"
  shows "drawPoint d (Vector2 (Num x) (Num y))
           = putPixel d (Num x) (Num y) (Color4 (Num 1) (Num 1) (Num 0) (Num 1))
    \<and> (canvas_size_ok d \<and> buffer_ok d \<longrightarrow>
        (\<exists>d' img'. drawPoint d (Vector2 (Num x) (Num y)) = Inr d' \<and> backbuffer d' = Some img'
           \<and> data img' ! nat index = 255 \<and> data img' ! (nat index + 1) = 255
           \<and> data img' ! (nat index + 2) = 0 \<and> data img' ! (nat index + 3) = 255))"
proof (intro conjI impI)
  show call: "drawPoint d (Vector2 (Num x) (Num y))
      = putPixel d (Num x) (Num y) (Color4 (Num 1) (Num 1) (Num 0) (Num 1))"
    using assms(1-4) by (simp add: drawPoint_def in_bounds_def)
  assume ok: "canvas_size_ok d \<and> buffer_ok d"
  then obtain img where img: "backbuffer d = Some img"
    and len: "length (data img) = workingWidth d * workingHeight d * 4"
    by (auto simp: buffer_ok_def split: option.splits)
  let ?c = "Color4 (Num 1) (Num 1) (Num 0) (Num 1)"
  have tx: "0 \<le> trunc x \<and> trunc x < int (workingWidth d)"
    using assms(1,2) by (rule trunc_bounds)
  have ty: "0 \<le> trunc y \<and> trunc y < int (workingHeight d)"
    using assms(3,4) by (rule trunc_bounds)
  have "real (workingWidth d) < 2 ^ 31" and "real (workingHeight d) < 2 ^ 31"
    using ok by (simp_all add: canvas_size_ok_def)
  then have ax: "\<bar>x\<bar> < 2 ^ 31" and ay: "\<bar>y\<bar> < 2 ^ 31"
    using assms(1-4) by simp_all
  have i: "pixel_index d (Num x) (Num y) = index"
    using ax ay by (simp only: pixel_index_def toInt32_trunc assms(5)) simp
  have inside: "0 \<le> index \<and> index + 3 < int (length (data img))"
    using index_in_buffer [of "trunc x" "workingWidth d" "trunc y" "workingHeight d"] tx ty
    by (simp add: assms(5) len algebra_simps)
  let ?img' = "img\<lparr>data := put4 (data img) index ?c\<rparr>"
  let ?d' = "d\<lparr>backbuffer := Some ?img', backbufferdata := Some (put4 (data img) index ?c)\<rparr>"
  have "putPixel d (Num x) (Num y) ?c = Inr ?d'"
    using putPixel_Some [OF img, of "Num x" "Num y" ?c] by (simp only: i)
  with call have "drawPoint d (Vector2 (Num x) (Num y)) = Inr ?d'" by simp
  then show "\<exists>d' img'. drawPoint d (Vector2 (Num x) (Num y)) = Inr d' \<and> backbuffer d' = Some img'
           \<and> data img' ! nat index = 255 \<and> data img' ! (nat index + 1) = 255
           \<and> data img' ! (nat index + 2) = 0 \<and> data img' ! (nat index + 3) = 255"
    using put4_inside [of index "data img" ?c] inside
    by (intro exI [of _ ?d'] exI [of _ ?img']) simp
qed

text \<open>One round of each loop, and its end.\<close>

lemma render_vertices_stop:
  "\<not> indexVertices < length (Vertices (meshes s ! index))
   \<Longrightarrow> render_vertices M s index transformMatrix indexVertices = Inr s"
  by (simp add: render_vertices.simps [of M s])

lemma render_vertices_step:
  "indexVertices < length (Vertices (meshes s ! index))
   \<Longrightarrow> render_vertices M s index transformMatrix indexVertices =
     (case drawPoint (device s)
             (project M (device s) (Vertices (meshes s ! index) ! indexVertices) transformMatrix) of
        Inl e \<Rightarrow> Inl e
      | Inr d' \<Rightarrow>
          render_vertices M (s\<lparr>device := d'\<rparr>) index transformMatrix (indexVertices + 1))"
  by (simp add: render_vertices.simps [of M s] Let_def)

lemma render_meshes_stop:
  "\<not> index < length (meshes s)
   \<Longrightarrow> render_meshes M s viewMatrix projectionMatrix index = Inr s"
  by (simp add: render_meshes.simps [of M s])

lemma render_meshes_step:
  "index < length (meshes s)
   \<Longrightarrow> render_meshes M s viewMatrix projectionMatrix index =
     (case render_vertices M s index
             (transform_matrix M viewMatrix projectionMatrix (meshes s ! index)) 0 of
        Inl e \<Rightarrow> Inl e
      | Inr s' \<Rightarrow> render_meshes M s' viewMatrix projectionMatrix (index + 1))"
  by (simp add: render_meshes.simps [of M s] transform_matrix_def world_matrix_def Let_def)

text \<open>On a device with a buffer nothing throws.\<close>

lemma putPixel_returns: "buffer_ok d \<Longrightarrow> \<exists>d'. putPixel d x y color = Inr d'"
  by (auto simp: buffer_ok_def putPixel_Some split: option.splits)

lemma drawPoint_returns: "buffer_ok d \<Longrightarrow> \<exists>d'. drawPoint d p = Inr d'"
  using putPixel_returns by (simp add: drawPoint_def)

lemma render_vertices_returns:
  "buffer_ok (device s) \<Longrightarrow> \<exists>s'. render_vertices M s index transformMatrix indexVertices = Inr s'"
proof (induction M s index transformMatrix indexVertices rule: render_vertices.induct)
  case (1 M s index transformMatrix indexVertices)
  show ?case
  proof (cases "indexVertices < length (Vertices (meshes s ! index))")
    case False
    then show ?thesis by (simp add: render_vertices_stop)
  next
    case True
    let ?p = "project M (device s) (Vertices (meshes s ! index) ! indexVertices) transformMatrix"
    from drawPoint_returns [OF "1.prems"] obtain d' where d': "drawPoint (device s) ?p = Inr d'"
      by blast
    from drawPoint_keeps [OF d'] "1.prems" have "buffer_ok (device (s\<lparr>device := d'\<rparr>))"
      by simp
    from "1.IH" [OF refl True refl d' this] d' show ?thesis
      by (simp add: render_vertices_step [OF True])
  qed
qed

lemma render_meshes_returns:
  "buffer_ok (device s) \<Longrightarrow> \<exists>s'. render_meshes M s viewMatrix projectionMatrix index = Inr s'"
proof (induction M s viewMatrix projectionMatrix index rule: render_meshes.induct)
  case (1 M s viewMatrix projectionMatrix index)
  show ?case
  proof (cases "index < length (meshes s)")
    case False
    then show ?thesis by (simp add: render_meshes_stop)
  next
    case True
    let ?t = "transform_matrix M viewMatrix projectionMatrix (meshes s ! index)"
    have t: "?t = multiply M (multiply M (multiply M
               (RotationYawPitchRoll M
                  (v3y (Rotation (meshes s ! index))) (v3x (Rotation (meshes s ! index)))
                  (v3z (Rotation (meshes s ! index))))
               (Translation M
                  (v3x (Position (meshes s ! index))) (v3y (Position (meshes s ! index)))
                  (v3z (Position (meshes s ! index))))) viewMatrix) projectionMatrix"
      by (simp add: transform_matrix_def world_matrix_def)
    from render_vertices_returns [OF "1.prems", of M index ?t 0] obtain s1 where
      s1: "render_vertices M s index ?t 0 = Inr s1" by blast
    from render_vertices_keeps [OF s1] "1.prems" have "buffer_ok (device s1)" by simp
    from "1.IH" [OF True refl refl refl s1 [unfolded t] this] s1 show ?thesis
      by (simp add: render_meshes_step [OF True])
  qed
qed

text \<open>Both iterations draw the vertices that are left, in order.\<close>

lemma draw_all_append:
  "draw_all M d (xs @ ys) =
     (case draw_all M d xs of Inl e \<Rightarrow> Inl e | Inr d' \<Rightarrow> draw_all M d' ys)"
  by (induction xs arbitrary: d) (auto split: sum.splits)

lemma render_vertices_draw_all:
  "render_vertices M s index transformMatrix indexVertices =
     (case draw_all M (device s)
             (map (\<lambda>v. (v, transformMatrix)) (drop indexVertices (Vertices (meshes s ! index)))) of
        Inl e \<Rightarrow> Inl e
      | Inr d' \<Rightarrow> Inr (s\<lparr>device := d'\<rparr>))"
proof (induction M s index transformMatrix indexVertices rule: render_vertices.induct)
  case (1 M s index transformMatrix indexVertices)
  let ?vs = "Vertices (meshes s ! index)"
  show ?case
  proof (cases "indexVertices < length ?vs")
    case False
    then show ?thesis by (simp add: render_vertices_stop)
  next
    case True
    let ?p = "project M (device s) (?vs ! indexVertices) transformMatrix"
    have d: "drop indexVertices ?vs = ?vs ! indexVertices # drop (indexVertices + 1) ?vs"
      using True by (simp add: Cons_nth_drop_Suc)
    show ?thesis
    proof (cases "drawPoint (device s) ?p")
      case (Inl e)
      then show ?thesis by (simp add: render_vertices_step [OF True] d)
    next
      case (Inr d')
      from "1.IH" [OF refl True refl Inr] Inr show ?thesis
        by (simp add: render_vertices_step [OF True] d split: sum.splits)
    qed
  qed
qed

lemma render_meshes_draw_all:
  "render_meshes M s viewMatrix projectionMatrix index =
     (case draw_all M (device s)
             (concat (map (\<lambda>mesh. map (\<lambda>v. (v, transform_matrix M viewMatrix projectionMatrix mesh))
                                       (Vertices mesh))
                          (drop index (meshes s)))) of
        Inl e \<Rightarrow> Inl e
      | Inr d' \<Rightarrow> Inr (s\<lparr>device := d'\<rparr>))"
proof (induction M s viewMatrix projectionMatrix index rule: render_meshes.induct)
  case (1 M s viewMatrix projectionMatrix index)
  show ?case
  proof (cases "index < length (meshes s)")
    case False
    then show ?thesis by (simp add: render_meshes_stop)
  next
    case True
    let ?t = "transform_matrix M viewMatrix projectionMatrix (meshes s ! index)"
    have d: "drop index (meshes s) = meshes s ! index # drop (index + 1) (meshes s)"
      using True by (simp add: Cons_nth_drop_Suc)
    show ?thesis
    proof (cases "render_vertices M s index ?t 0")
      case (Inl e)
      with render_vertices_draw_all [of M s index ?t 0] show ?thesis
        by (simp add: render_meshes_step [OF True] d draw_all_append split: sum.splits)
    next
      case (Inr s1)
      have t: "?t = multiply M (multiply M (multiply M
               (RotationYawPitchRoll M
                  (v3y (Rotation (meshes s ! index))) (v3x (Rotation (meshes s ! index)))
                  (v3z (Rotation (meshes s ! index))))
               (Translation M
                  (v3x (Position (meshes s ! index))) (v3y (Position (meshes s ! index)))
                  (v3z (Position (meshes s ! index))))) viewMatrix) projectionMatrix"
        by (simp add: transform_matrix_def world_matrix_def)
      from Inr render_vertices_draw_all [of M s index ?t 0] obtain d1 where
        d1: "draw_all M (device s) (map (\<lambda>v. (v, ?t)) (Vertices (meshes s ! index))) = Inr d1"
        and s1: "s1 = s\<lparr>device := d1\<rparr>"
        by (auto split: sum.splits)
      from "1.IH" [OF True refl refl refl Inr [unfolded t]] 
      have "render_meshes M s1 viewMatrix projectionMatrix (index + 1) =
        (case draw_all M (device s1)
             (concat (map (\<lambda>mesh. map (\<lambda>v. (v, transform_matrix M viewMatrix projectionMatrix mesh))
                                       (Vertices mesh))
                          (drop (index + 1) (meshes s1)))) of
        Inl e \<Rightarrow> Inl e
      | Inr d' \<Rightarrow> Inr (s1\<lparr>device := d'\<rparr>))" .
      with Inr d1 show ?thesis
        by (simp add: render_meshes_step [OF True] d draw_all_append s1 split: sum.splits)
    qed
  qed
qed

text \<open>The list of calls of each iteration is the part of the specified list that it reached.\<close>

lemma render_vertices_log_stop:
  "\<not> indexVertices < length (Vertices (meshes s ! index))
   \<Longrightarrow> render_vertices_log M calls s index transformMatrix indexVertices = (calls, Inr s)"
  by (simp add: render_vertices_log.simps [of M calls s])

lemma render_vertices_log_step:
  "indexVertices < length (Vertices (meshes s ! index))
   \<Longrightarrow> render_vertices_log M calls s index transformMatrix indexVertices =
     (case drawPoint (device s)
             (project M (device s) (Vertices (meshes s ! index) ! indexVertices) transformMatrix) of
        Inl e \<Rightarrow>
          (calls @ [Call_project (Vertices (meshes s ! index) ! indexVertices) transformMatrix,
                  Call_drawPoint (project M (device s)
                    (Vertices (meshes s ! index) ! indexVertices) transformMatrix)], Inl e)
      | Inr d' \<Rightarrow>
          render_vertices_log M
            (calls @ [Call_project (Vertices (meshes s ! index) ! indexVertices) transformMatrix,
                    Call_drawPoint (project M (device s)
                      (Vertices (meshes s ! index) ! indexVertices) transformMatrix)])
            (s\<lparr>device := d'\<rparr>) index transformMatrix (indexVertices + 1))"
  by (simp add: render_vertices_log.simps [of M calls s] Let_def)

lemma project_same_size:
  "workingWidth d' = workingWidth d \<Longrightarrow> workingHeight d' = workingHeight d
   \<Longrightarrow> project M d' coord transMat = project M d coord transMat"
  by (simp add: project_def)

lemma vertex_calls_same_size:
  "workingWidth d' = workingWidth d \<Longrightarrow> workingHeight d' = workingHeight d
   \<Longrightarrow> vertex_calls M d' transform vs = vertex_calls M d transform vs"
  by (simp add: vertex_calls_def project_def)

lemma mesh_calls_same_size:
  "workingWidth d' = workingWidth d \<Longrightarrow> workingHeight d' = workingHeight d
   \<Longrightarrow> mesh_calls M d' view projection mesh = mesh_calls M d view projection mesh"
  by (simp add: mesh_calls_def vertex_calls_def project_def)

lemma render_vertices_log_calls:
  "\<exists>made rest.
     render_vertices_log M calls s index transformMatrix indexVertices
       = (calls @ made, render_vertices M s index transformMatrix indexVertices)
     \<and> vertex_calls M (device s) transformMatrix
         (drop indexVertices (Vertices (meshes s ! index))) = made @ rest
     \<and> ((\<exists>s'. render_vertices M s index transformMatrix indexVertices = Inr s') \<longrightarrow> rest = [])"
proof (induction M calls s index transformMatrix indexVertices rule: render_vertices_log.induct)
  case (1 M calls s index transformMatrix indexVertices)
  let ?vs = "Vertices (meshes s ! index)"
  show ?case
  proof (cases "indexVertices < length ?vs")
    case False
    then show ?thesis
      by (simp add: render_vertices_log_stop render_vertices_stop vertex_calls_def)
  next
    case True
    let ?v = "?vs ! indexVertices"
    let ?p = "project M (device s) ?v transformMatrix"
    let ?here = "[Call_project ?v transformMatrix, Call_drawPoint ?p]"
    have d: "drop indexVertices ?vs = ?v # drop (indexVertices + 1) ?vs"
      using True by (simp add: Cons_nth_drop_Suc)
    have v: "vertex_calls M (device s) transformMatrix (drop indexVertices ?vs)
      = ?here @ vertex_calls M (device s) transformMatrix (drop (indexVertices + 1) ?vs)"
      by (simp add: d vertex_calls_def)
    show ?thesis
    proof (cases "drawPoint (device s) ?p")
      case (Inl e)
      then show ?thesis
        by (intro exI [of _ ?here]
              exI [of _ "vertex_calls M (device s) transformMatrix (drop (indexVertices + 1) ?vs)"])
          (simp add: render_vertices_log_step [OF True] render_vertices_step [OF True] v)
    next
      case (Inr d')
      from "1.IH" [OF refl True refl refl Inr] obtain made rest where
        r: "render_vertices_log M (calls @ ?here) (s\<lparr>device := d'\<rparr>) index transformMatrix
              (indexVertices + 1)
            = ((calls @ ?here) @ made,
               render_vertices M (s\<lparr>device := d'\<rparr>) index transformMatrix (indexVertices + 1))"
        and c: "vertex_calls M d' transformMatrix (drop (indexVertices + 1) ?vs) = made @ rest"
        and e: "(\<exists>s'. render_vertices M (s\<lparr>device := d'\<rparr>) index transformMatrix
                  (indexVertices + 1) = Inr s') \<longrightarrow> rest = []"
        by auto
      from drawPoint_keeps [OF Inr] have
        "vertex_calls M d' transformMatrix (drop (indexVertices + 1) ?vs)
           = vertex_calls M (device s) transformMatrix (drop (indexVertices + 1) ?vs)"
        by (intro vertex_calls_same_size) simp_all
      with c have c': "vertex_calls M (device s) transformMatrix (drop (indexVertices + 1) ?vs)
        = made @ rest" by simp
      show ?thesis
        using r c' e Inr
        by (intro exI [of _ "?here @ made"] exI [of _ rest])
          (simp add: render_vertices_log_step [OF True] render_vertices_step [OF True] v)
    qed
  qed
qed

lemma render_meshes_log_stop:
  "\<not> index < length (meshes s)
   \<Longrightarrow> render_meshes_log M calls s viewMatrix projectionMatrix index = (calls, Inr s)"
  by (simp add: render_meshes_log.simps [of M calls s])

lemma mesh_calls_header:
  "mesh_calls M d view projection mesh =
     mesh_header M view projection mesh
       @ vertex_calls M d (transform_matrix M view projection mesh) (Vertices mesh)"
  by (simp add: mesh_calls_def mesh_header_def world_matrix_def transform_matrix_def Let_def)

lemma render_meshes_log_step:
  "index < length (meshes s)
   \<Longrightarrow> render_meshes_log M calls s viewMatrix projectionMatrix index =
     (case render_vertices_log M
             (calls @ mesh_header M viewMatrix projectionMatrix (meshes s ! index)) s index
             (transform_matrix M viewMatrix projectionMatrix (meshes s ! index)) 0 of
        (calls'', Inl e) \<Rightarrow> (calls'', Inl e)
      | (calls'', Inr s') \<Rightarrow>
          render_meshes_log M calls'' s' viewMatrix projectionMatrix (index + 1))"
  unfolding mesh_header_def world_matrix_def transform_matrix_def
  by (subst render_meshes_log.simps) (simp add: Let_def)

lemma render_meshes_log_calls:
  "\<exists>made rest.
     render_meshes_log M calls s viewMatrix projectionMatrix index
       = (calls @ made, render_meshes M s viewMatrix projectionMatrix index)
     \<and> concat (map (mesh_calls M (device s) viewMatrix projectionMatrix)
                 (drop index (meshes s))) = made @ rest
     \<and> ((\<exists>s'. render_meshes M s viewMatrix projectionMatrix index = Inr s') \<longrightarrow> rest = [])"
proof (induction M calls s viewMatrix projectionMatrix index rule: render_meshes_log.induct)
  case (1 M calls s viewMatrix projectionMatrix index)
  show ?case
  proof (cases "index < length (meshes s)")
    case False
    then show ?thesis
      by (simp add: render_meshes_log_stop render_meshes_stop)
  next
    case True
    note ih = "1.IH" [OF True refl refl refl refl refl refl refl]
    let ?mesh = "meshes s ! index"
    let ?h = "mesh_header M viewMatrix projectionMatrix ?mesh"
    let ?t = "transform_matrix M viewMatrix projectionMatrix ?mesh"
    let ?later = "concat (map (mesh_calls M (device s) viewMatrix projectionMatrix)
                    (drop (index + 1) (meshes s)))"
    have d: "drop index (meshes s) = ?mesh # drop (index + 1) (meshes s)"
      using True by (simp add: Cons_nth_drop_Suc)
    from render_vertices_log_calls [of M "calls @ ?h" s index ?t 0] obtain vmade vrest where
      rv: "render_vertices_log M (calls @ ?h) s index ?t 0
             = ((calls @ ?h) @ vmade, render_vertices M s index ?t 0)"
      and vc: "vertex_calls M (device s) ?t (Vertices ?mesh) = vmade @ vrest"
      and ve: "(\<exists>s'. render_vertices M s index ?t 0 = Inr s') \<longrightarrow> vrest = []"
      by auto
    have all: "concat (map (mesh_calls M (device s) viewMatrix projectionMatrix)
                 (drop index (meshes s))) = ?h @ vmade @ vrest @ ?later"
      by (simp add: d mesh_calls_header vc)
    show ?thesis
    proof (cases "render_vertices M s index ?t 0")
      case (Inl e)
      have "render_meshes_log M calls s viewMatrix projectionMatrix index
          = (calls @ ?h @ vmade, Inl e)"
        by (simp add: render_meshes_log_step [OF True] rv Inl)
      moreover have "render_meshes M s viewMatrix projectionMatrix index = Inl e"
        by (simp add: render_meshes_step [OF True] Inl)
      ultimately show ?thesis
        using all by (intro exI [of _ "?h @ vmade"] exI [of _ "vrest @ ?later"]) simp
    next
      case (Inr s1)
      with ve have vrest: "vrest = []" by simp
      have eq: "(calls @ ?h @ vmade, Inr s1) = render_vertices_log M (calls @ ?h) s index ?t 0"
        by (simp add: rv Inr)
      have "\<exists>made rest.
          render_meshes_log M (calls @ ?h @ vmade) s1 viewMatrix projectionMatrix (index + 1)
            = ((calls @ ?h @ vmade) @ made,
               render_meshes M s1 viewMatrix projectionMatrix (index + 1))
          \<and> concat (map (mesh_calls M (device s1) viewMatrix projectionMatrix)
                (drop (index + 1) (meshes s1))) = made @ rest
          \<and> ((\<exists>s'. render_meshes M s1 viewMatrix projectionMatrix (index + 1) = Inr s')
                \<longrightarrow> rest = [])"
        using ih [OF eq [unfolded mesh_header_def world_matrix_def transform_matrix_def] refl]
        unfolding mesh_header_def world_matrix_def transform_matrix_def .
      then obtain made rest where
        rm: "render_meshes_log M (calls @ ?h @ vmade) s1 viewMatrix projectionMatrix (index + 1)
               = ((calls @ ?h @ vmade) @ made,
                  render_meshes M s1 viewMatrix projectionMatrix (index + 1))"
        and mc: "concat (map (mesh_calls M (device s1) viewMatrix projectionMatrix)
                   (drop (index + 1) (meshes s1))) = made @ rest"
        and me: "(\<exists>s'. render_meshes M s1 viewMatrix projectionMatrix (index + 1) = Inr s')
                   \<longrightarrow> rest = []"
        by blast
      from render_vertices_frame [OF Inr] have m1: "meshes s1 = meshes s" by simp
      from render_vertices_keeps [OF Inr] have
        "mesh_calls M (device s1) viewMatrix projectionMatrix
           = mesh_calls M (device s) viewMatrix projectionMatrix"
        by (intro ext mesh_calls_same_size) simp_all
      with mc m1 have later: "?later = made @ rest" by simp
      have "render_meshes_log M calls s viewMatrix projectionMatrix index
          = (calls @ ?h @ vmade @ made,
             render_meshes M s1 viewMatrix projectionMatrix (index + 1))"
        using rm by (simp add: render_meshes_log_step [OF True] rv Inr)
      moreover have "render_meshes M s viewMatrix projectionMatrix index
          = render_meshes M s1 viewMatrix projectionMatrix (index + 1)"
        by (simp add: render_meshes_step [OF True] Inr)
      ultimately show ?thesis
        using all me vrest later
        by (intro exI [of _ "?h @ vmade @ made"] exI [of _ rest]) simp
    qed
  qed
qed


lemma mesh_calls_build_nothing:
  "filter builds_view (mesh_calls M d view projection mesh) = []"
  "filter builds_projection (mesh_calls M d view projection mesh) = []"
  by (simp_all add: mesh_calls_def vertex_calls_def Let_def filter_concat comp_def)

lemma render_log_calls:
  "\<exists>made rest.
     render_log M d cam ms
       = ([Call_Up,
           Call_LookAtLH (cam_Position cam) (cam_Target cam) (Up M),
           Call_PerspectiveFovLH (Num (78 / 100))
             (Num (real (workingWidth d)) / Num (real (workingHeight d)))
             (Num (1 / 100)) (Num 1)] @ made,
          render M d cam ms)
     \<and> spec_calls M d cam ms
       = [Call_Up,
          Call_LookAtLH (cam_Position cam) (cam_Target cam) (Up M),
          Call_PerspectiveFovLH (Num (78 / 100))
            (Num (real (workingWidth d)) / Num (real (workingHeight d)))
            (Num (1 / 100)) (Num 1)] @ made @ rest
     \<and> ((\<exists>s'. render M d cam ms = Inr s') \<longrightarrow> rest = [])"
  using render_meshes_log_calls [of M
      "[Call_Up,
        Call_LookAtLH (cam_Position cam) (cam_Target cam) (Up M),
        Call_PerspectiveFovLH (Num (78 / 100))
          (Num (real (workingWidth d)) / Num (real (workingHeight d)))
          (Num (1 / 100)) (Num 1)]"
      "\<lparr>device = d, camera = cam, meshes = ms\<rparr>"
      "LookAtLH M (cam_Position cam) (cam_Target cam) (Up M)"
      "PerspectiveFovLH M (Num (78 / 100))
          (Num (real (workingWidth d)) / Num (real (workingHeight d)))
          (Num (1 / 100)) (Num 1)" 0]
  by (simp add: render_log_def render_def spec_calls_def Let_def)

section \<open>The sample frame\<close>

lemma clear_2x2: "clear (Device_new 2 2) = Inr cleared_2x2"
  by (simp add: clear_def cleared_2x2_def Device_new_def)

lemma project_sample:
  "project spec_math cleared_2x2 (Vector3 (Num (1 / 5)) (Num (1 / 10)) (Num 1))
     (Matrix_Translation (Num 0) (Num 0) (Num 0)) = Vector2 (Num 1) (Num 0)"
  by (simp add: project_def spec_math_def cleared_2x2_def Vector3_TransformCoordinates_def
      Matrix_Translation_def trunc_def wrap32_def)

lemma sqrt_100: "sqrt 100 = 10"
  by (rule real_sqrt_unique) simp_all

lemma tan_39: "tan (39 / 100 :: real) \<noteq> 0"
proof -
  have "(39 / 100 :: real) < pi / 2" using pi_ge_two by simp
  then have "0 < tan (39 / 100 :: real)" by (intro tan_gt_zero) simp_all
  then show ?thesis by simp
qed

lemma sample_view:
  "Matrix_LookAtLH (Vector3 (Num 0) (Num 0) (Num 10)) (Vector3 (Num 0) (Num 0) (Num 0)) Vector3_Up =
     [Num (- 1), Num 0, Num 0, Num 0,
      Num 0, Num 1, Num 0, Num 0,
      Num 0, Num 0, Num (- 1), Num 0,
      Num 0, Num 0, Num 10, Num 1]"
  by (simp add: Matrix_LookAtLH_def Vector3_normalize_def Vector3_subtract_def
      Vector3_Cross_def Vector3_Dot_def Vector3_Up_def minus_number_def Let_def sqrt_100)

lemma sample_projection:
  "Matrix_PerspectiveFovLH (Num (39 / 50)) (Num 1) (Num (1 / 100)) (Num 1) =
     [Num (1 / tan (39 / 100)), Num 0, Num 0, Num 0,
      Num 0, Num (1 / tan (39 / 100)), Num 0, Num 0,
      Num 0, Num 0, Num (100 / 99), Num 1,
      Num 0, Num 0, Num (- (1 / 99)), Num 0]"
  by (simp add: Matrix_PerspectiveFovLH_def minus_number_def Let_def tan_39)

lemma sample_world:
  "Matrix_multiply (Matrix_RotationYawPitchRoll (Num 0) (Num 0) (Num 0))
     (Matrix_Translation (Num 0) (Num 0) (Num 0)) = Matrix_Translation (Num 0) (Num 0) (Num 0)"
  by (simp add: Matrix_RotationYawPitchRoll_def Matrix_RotationX_def Matrix_RotationY_def
      Matrix_RotationZ_def Matrix_multiply_def Matrix_entry_def Matrix_Translation_def Let_def)

lemma sample_transform:
  "Matrix_multiply (Matrix_multiply (Matrix_Translation (Num 0) (Num 0) (Num 0))
     [Num (- 1), Num 0, Num 0, Num 0,
      Num 0, Num 1, Num 0, Num 0,
      Num 0, Num 0, Num (- 1), Num 0,
      Num 0, Num 0, Num 10, Num 1])
     [Num (1 / tan (39 / 100)), Num 0, Num 0, Num 0,
      Num 0, Num (1 / tan (39 / 100)), Num 0, Num 0,
      Num 0, Num 0, Num (100 / 99), Num 1,
      Num 0, Num 0, Num (- (1 / 99)), Num 0] = sample_transform"
  by (simp add: Matrix_multiply_def Matrix_entry_def Matrix_Translation_def sample_transform_def)

lemma sample_project_0:
  "workingWidth d = 2 \<Longrightarrow> workingHeight d = 2 \<Longrightarrow>
   project spec_math d (Vector3 (Num 0) (Num 0) (Num 0)) sample_transform
     = Vector2 (Num 1) (Num 1)"
  by (simp add: project_def spec_math_def Vector3_TransformCoordinates_def sample_transform_def
      trunc_def wrap32_def)

lemma sample_project_1:
  "workingWidth d = 2 \<Longrightarrow> workingHeight d = 2 \<Longrightarrow>
   project spec_math d (Vector3 (Num 0) (Num 0) (Num 10)) sample_transform
     = Vector2 (Num 0) (Num 0)"
  by (simp add: project_def spec_math_def Vector3_TransformCoordinates_def sample_transform_def)

lemma sample_draw_0: "drawPoint cleared_2x2 (Vector2 (Num 1) (Num 1)) = Inr sample_half"
  by (simp add: drawPoint_def in_bounds_def putPixel_def cleared_2x2_def pixel_index_def
      typed_set_def trunc_def wrap32_def Let_def replicate_16 sample_half_def)

lemma sample_draw_1: "drawPoint sample_half (Vector2 (Num 0) (Num 0)) = Inr sample_rendered"
  by (simp add: drawPoint_def in_bounds_def putPixel_def sample_half_def pixel_index_def
      typed_set_def trunc_def wrap32_def Let_def sample_rendered_def)

lemma sample_vertices:
  "render_vertices spec_math
     \<lparr>device = cleared_2x2, camera = sample_camera, meshes = [sample_mesh]\<rparr> 0 sample_transform 0
   = Inr \<lparr>device = sample_rendered, camera = sample_camera, meshes = [sample_mesh]\<rparr>"
proof -
  have v: "Vertices sample_mesh = [Vector3 (Num 0) (Num 0) (Num 0), Vector3 (Num 0) (Num 0) (Num 10)]"
    by (simp add: sample_mesh_def)
  have w: "workingWidth cleared_2x2 = 2" "workingHeight cleared_2x2 = 2"
    "workingWidth sample_half = 2" "workingHeight sample_half = 2"
    by (simp_all add: cleared_2x2_def sample_half_def)
  show ?thesis
    by (simp add: render_vertices_step render_vertices_stop v w sample_project_0 sample_draw_0
        sample_project_1 sample_draw_1)
qed

lemma sample_transform_matrix:
  "transform_matrix spec_math
     (Matrix_LookAtLH (Vector3 (Num 0) (Num 0) (Num 10)) (Vector3 (Num 0) (Num 0) (Num 0)) Vector3_Up)
     (Matrix_PerspectiveFovLH (Num (39 / 50)) (Num 1) (Num (1 / 100)) (Num 1)) sample_mesh
   = sample_transform"
proof -
  have m: "Rotation sample_mesh = Vector3 (Num 0) (Num 0) (Num 0)"
    "Position sample_mesh = Vector3 (Num 0) (Num 0) (Num 0)"
    by (simp_all add: sample_mesh_def)
  have s: "RotationYawPitchRoll spec_math = Matrix_RotationYawPitchRoll"
    "Translation spec_math = Matrix_Translation" "multiply spec_math = Matrix_multiply"
    by (simp_all add: spec_math_def)
  show ?thesis
    unfolding transform_matrix_def world_matrix_def s m Vector3.sel sample_world sample_view
      sample_projection
    by (rule sample_transform)
qed

lemma sample_render:
  "render spec_math cleared_2x2 sample_camera [sample_mesh]
   = Inr \<lparr>device = sample_rendered, camera = sample_camera, meshes = [sample_mesh]\<rparr>"
proof -
  have c: "cam_Position sample_camera = Vector3 (Num 0) (Num 0) (Num 10)"
    "cam_Target sample_camera = Vector3 (Num 0) (Num 0) (Num 0)"
    by (simp_all add: sample_camera_def)
  have w: "workingWidth cleared_2x2 = 2" "workingHeight cleared_2x2 = 2"
    by (simp_all add: cleared_2x2_def)
  have s: "Up spec_math = Vector3_Up" "LookAtLH spec_math = Matrix_LookAtLH"
    "PerspectiveFovLH spec_math = Matrix_PerspectiveFovLH"
    by (simp_all add: spec_math_def)
  show ?thesis
    unfolding render_def Let_def
    by (simp add: render_meshes_step render_meshes_stop s c w sample_transform_matrix
        sample_vertices)
qed

lemma sample_calls:
  "drop 8 (spec_calls spec_math cleared_2x2 sample_camera [sample_mesh])
     = [Call_project (Vector3 (Num 0) (Num 0) (Num 0)) sample_transform,
        Call_drawPoint (Vector2 (Num 1) (Num 1)),
        Call_project (Vector3 (Num 0) (Num 0) (Num 10)) sample_transform,
        Call_drawPoint (Vector2 (Num 0) (Num 0))]"
proof -
  have c: "cam_Position sample_camera = Vector3 (Num 0) (Num 0) (Num 10)"
    "cam_Target sample_camera = Vector3 (Num 0) (Num 0) (Num 0)"
    by (simp_all add: sample_camera_def)
  have w: "workingWidth cleared_2x2 = 2" "workingHeight cleared_2x2 = 2"
    by (simp_all add: cleared_2x2_def)
  have s: "Up spec_math = Vector3_Up" "LookAtLH spec_math = Matrix_LookAtLH"
    "PerspectiveFovLH spec_math = Matrix_PerspectiveFovLH"
    by (simp_all add: spec_math_def)
  have v: "Vertices sample_mesh = [Vector3 (Num 0) (Num 0) (Num 0), Vector3 (Num 0) (Num 0) (Num 10)]"
    by (simp add: sample_mesh_def)
  show ?thesis
    by (simp add: spec_calls_def Let_def mesh_calls_header mesh_header_def c w s v
        sample_transform_matrix vertex_calls_def sample_project_0 sample_project_1)
qed

section \<open>Clipping\<close>

text \<open>
  C3. A point left of, right of, above or below the buffer is discarded by drawPoint: the
  device, and with it the pixel buffer, is returned as it was and no exception is raised,
  even while the back buffer is still undefined and putPixel would throw.
\<close>

theorem drawPoint_outside_unchanged:
  "v2x p < Num 0 \<or> Num (real (workingWidth d)) \<le> v2x p
     \<or> v2y p < Num 0 \<or> Num (real (workingHeight d)) \<le> v2y p
   \<Longrightarrow> drawPoint d p = Inr d"
  by (cases p; cases "v2x p"; cases "v2y p") (auto simp: drawPoint_def in_bounds_def)

theorem drawPoint_outside_unchanged_witness:
  "v2x (Vector2 (Num (- 1)) (Num 1)) < Num 0
   \<and> drawPoint (Device_new 4 3) (Vector2 (Num (- 1)) (Num 1)) = Inr (Device_new 4 3)"
  using drawPoint_outside_unchanged [of "Vector2 (Num (- 1)) (Num 1)" "Device_new 4 3"]
  by simp

text \<open>
  C4. For a point that passes the four comparisons, drawPoint is the call of putPixel at
  that point with the colour \<open>(1, 1, 0, 1)\<close>. Such a point is finite; on a device of canvas
  size whose buffer has been cleared the call returns, and the four bytes of the pixel,
  from the index \<open>((y' * width) + x') * 4\<close> of the truncated coordinates on, are then
  \<open>(255, 255, 0, 255)\<close>.
\<close>

theorem drawPoint_inside_yellow:
  assumes "Num 0 \<le> v2x p" and "v2x p < Num (real (workingWidth d))"
    and "Num 0 \<le> v2y p" and "v2y p < Num (real (workingHeight d))"
  shows "drawPoint d p = putPixel d (v2x p) (v2y p) (Color4 (Num 1) (Num 1) (Num 0) (Num 1))
    \<and> (canvas_size_ok d \<and> buffer_ok d \<longrightarrow>
        (\<exists>x y index d' img'. p = Vector2 (Num x) (Num y)
           \<and> index = nat ((trunc y * int (workingWidth d) + trunc x) * 4)
           \<and> drawPoint d p = Inr d' \<and> backbuffer d' = Some img'
           \<and> data img' ! index = 255 \<and> data img' ! (index + 1) = 255
           \<and> data img' ! (index + 2) = 0 \<and> data img' ! (index + 3) = 255))"
proof -
  obtain a b where p: "p = Vector2 a b" by (cases p)
  from assms(1,2) obtain x where a: "a = Num x" by (cases a) (simp_all add: p)
  from assms(3,4) obtain y where b: "b = Num y" by (cases b) (simp_all add: p)
  have xy: "0 \<le> x" "x < real (workingWidth d)" "0 \<le> y" "y < real (workingHeight d)"
    using assms by (simp_all add: p a b)
  let ?i = "(trunc y * int (workingWidth d) + trunc x) * 4"
  note inside = drawPoint_inside [OF xy refl]
  show ?thesis
  proof (intro conjI impI)
    show "drawPoint d p = putPixel d (v2x p) (v2y p) (Color4 (Num 1) (Num 1) (Num 0) (Num 1))"
      using inside by (simp add: p a b)
  next
    assume "canvas_size_ok d \<and> buffer_ok d"
    with inside obtain d' img' where "drawPoint d (Vector2 (Num x) (Num y)) = Inr d'"
      and "backbuffer d' = Some img'"
      and "data img' ! nat ?i = 255" and "data img' ! (nat ?i + 1) = 255"
      and "data img' ! (nat ?i + 2) = 0" and "data img' ! (nat ?i + 3) = 255"
      by blast
    then show "\<exists>x y index d' img'. p = Vector2 (Num x) (Num y)
           \<and> index = nat ((trunc y * int (workingWidth d) + trunc x) * 4)
           \<and> drawPoint d p = Inr d' \<and> backbuffer d' = Some img'
           \<and> data img' ! index = 255 \<and> data img' ! (index + 1) = 255
           \<and> data img' ! (index + 2) = 0 \<and> data img' ! (index + 3) = 255"
      unfolding p a b
      by (intro exI [of _ x] exI [of _ y] exI [of _ "nat ?i"] exI [of _ d'] exI [of _ img'])
        simp
  qed
qed

theorem drawPoint_inside_yellow_witness:
  "Num 0 \<le> v2x (Vector2 (Num 1) (Num 1))
   \<and> v2x (Vector2 (Num 1) (Num 1)) < Num (real (workingWidth cleared_2x2))
   \<and> canvas_size_ok cleared_2x2 \<and> buffer_ok cleared_2x2
   \<and> (\<exists>d' img'. drawPoint cleared_2x2 (Vector2 (Num 1) (Num 1)) = Inr d'
        \<and> backbuffer d' = Some img'
        \<and> data img' ! 12 = 255 \<and> data img' ! 13 = 255
        \<and> data img' ! 14 = 0 \<and> data img' ! 15 = 255)"
proof -
  have w: "workingWidth cleared_2x2 = 2" "workingHeight cleared_2x2 = 2"
    and ok: "canvas_size_ok cleared_2x2" "buffer_ok cleared_2x2"
    by (simp_all add: cleared_2x2_def canvas_size_ok_def buffer_ok_def)
  show ?thesis
    using drawPoint_inside_yellow [of "Vector2 (Num 1) (Num 1)" cleared_2x2] ok
    by (simp add: w trunc_def cong: conj_cong)
qed

section \<open>Projection to pixel coordinates\<close>




section \<open>Writing a pixel\<close>

text \<open>
  C5, as stated, holds for every pair of coordinates. \<^verbatim>\<open>>> 0\<close> is ToInt32, which wraps
  modulo \<open>2^32\<close> after dropping the fraction: for \<open>x = 2^31\<close> and \<open>y = 0\<close> the index
  that putPixel computes is \<open>-2^31 * 4\<close>, not \<open>2^31 * 4\<close>. Neither index is in the buffer
  of the cleared 2x2 device, so the four stores are dropped and no byte holds the colour.
\<close>

theorem pixel_index_counterexample:
  "pixel_index cleared_2x2 (Num 2147483648) (Num 0) = - 8589934592
   \<and> (trunc 0 * int (workingWidth cleared_2x2) + trunc 2147483648) * 4 = 8589934592
   \<and> putPixel cleared_2x2 (Num 2147483648) (Num 0) (Color4 (Num 1) (Num 1) (Num 0) (Num 1))
       = Inr (cleared_2x2\<lparr>backbufferdata := Some (replicate 16 0)\<rparr>)"
  by (simp add: putPixel_def pixel_index_def cleared_2x2_def typed_set_def trunc_def wrap32_def
      Let_def)

text \<open>
  C5, amended. For coordinates below \<open>2^31\<close> in magnitude the index is
  \<open>((y' * width) + x') * 4\<close>, where \<open>x'\<close> and \<open>y'\<close> are \<open>x\<close> and \<open>y\<close> with the
  fraction dropped towards zero; and when the four positions from that index on lie in the
  buffer they hold the bytes of R, G, B and A, in that order.
\<close>

theorem putPixel_index_and_bytes:
  assumes "\<bar>x\<bar> < 2 ^ 31" and "\<bar>y\<bar> < 2 ^ 31"
    and "index = (trunc y * int (workingWidth d) + trunc x) * 4"
    and "backbuffer d = Some img"
  shows "pixel_index d (Num x) (Num y) = index
    \<and> (0 \<le> index \<and> index + 3 < int (length (data img)) \<longrightarrow>
        (\<exists>d' img'. putPixel d (Num x) (Num y) color = Inr d' \<and> backbuffer d' = Some img'
           \<and> data img' ! nat index = toUint8Clamp (cr color * Num 255)
           \<and> data img' ! (nat index + 1) = toUint8Clamp (cg color * Num 255)
           \<and> data img' ! (nat index + 2) = toUint8Clamp (cb color * Num 255)
           \<and> data img' ! (nat index + 3) = toUint8Clamp (ca color * Num 255)))"
proof -
  have i: "pixel_index d (Num x) (Num y) = index"
    using assms(1-3) by (simp only: pixel_index_def toInt32_trunc) simp
  show ?thesis
  proof (intro conjI impI)
    show "pixel_index d (Num x) (Num y) = index" by (rule i)
  next
    assume "0 \<le> index \<and> index + 3 < int (length (data img))"
    then have inside: "0 \<le> index" "index + 3 < int (length (data img))" by simp_all
    let ?img' = "img\<lparr>data := put4 (data img) index color\<rparr>"
    let ?d' = "d\<lparr>backbuffer := Some ?img', backbufferdata := Some (put4 (data img) index color)\<rparr>"
    have "putPixel d (Num x) (Num y) color = Inr ?d'"
      using putPixel_Some [OF assms(4), of "Num x" "Num y" color] by (simp only: i)
    then show "\<exists>d' img'. putPixel d (Num x) (Num y) color = Inr d' \<and> backbuffer d' = Some img'
           \<and> data img' ! nat index = toUint8Clamp (cr color * Num 255)
           \<and> data img' ! (nat index + 1) = toUint8Clamp (cg color * Num 255)
           \<and> data img' ! (nat index + 2) = toUint8Clamp (cb color * Num 255)
           \<and> data img' ! (nat index + 3) = toUint8Clamp (ca color * Num 255)"
      using put4_inside [OF inside, of color]
      by (intro exI [of _ ?d'] exI [of _ ?img']) simp
  qed
qed

theorem putPixel_index_and_bytes_witness:
  "\<bar>19 / 10 :: real\<bar> < 2 ^ 31 \<and> \<bar>1 / 2 :: real\<bar> < 2 ^ 31
   \<and> pixel_index cleared_2x2 (Num (19 / 10)) (Num (1 / 2)) = 4
   \<and> (\<exists>d' img'. putPixel cleared_2x2 (Num (19 / 10)) (Num (1 / 2))
          (Color4 (Num 1) (Num (1 / 2)) (Num 0) (Num (1 / 4))) = Inr d'
        \<and> backbuffer d' = Some img'
        \<and> data img' ! 4 = 255 \<and> data img' ! 5 = 128 \<and> data img' ! 6 = 0 \<and> data img' ! 7 = 64)"
  using putPixel_index_and_bytes [of "19 / 10" "1 / 2" 4 cleared_2x2
      "\<lparr>img_width = 2, img_height = 2, data = replicate 16 0\<rparr>"
      "Color4 (Num 1) (Num (1 / 2)) (Num 0) (Num (1 / 4))"]
  by (simp add: cleared_2x2_def trunc_def)

section \<open>Colour channels\<close>




section \<open>Safety of the store\<close>

text \<open>
  C8. The coordinates that project returns are 32-bit integers. If such a point passes the
  bounds test of drawPoint, the index that putPixel computes for it is not negative and,
  with the three that follow it, is below \<open>width * height * 4\<close>, the length of the buffer.
\<close>

theorem projected_point_index_in_buffer:
  assumes "p = project M d coord transMat" and "in_bounds d p"
  shows "0 \<le> pixel_index d (v2x p) (v2y p)
    \<and> pixel_index d (v2x p) (v2y p) + 3 < int (workingWidth d * workingHeight d * 4)"
proof -
  obtain X Y where p: "p = Vector2 (Num (of_int X)) (Num (of_int Y))"
    and X: "- (2 ^ 31) \<le> X \<and> X < 2 ^ 31" and Y: "- (2 ^ 31) \<le> Y \<and> Y < 2 ^ 31"
    using assms(1) toInt32_range by (auto simp: project_def Let_def)
  from assms(2) have "0 \<le> real_of_int X" "real_of_int X < real_of_int (int (workingWidth d))"
    "0 \<le> real_of_int Y" "real_of_int Y < real_of_int (int (workingHeight d))"
    by (simp_all add: p in_bounds_def)
  then have b: "0 \<le> X" "X < int (workingWidth d)" "0 \<le> Y" "Y < int (workingHeight d)"
    by (simp_all only: of_int_less_iff of_int_0_le_iff)
  have "pixel_index d (v2x p) (v2y p) = (X + Y * int (workingWidth d)) * 4"
    using X Y by (simp add: p pixel_index_def toInt32_of_int del: toInt32.simps)
  with index_in_buffer [OF b] show ?thesis by simp
qed


theorem projected_point_index_in_buffer_witness:
  "in_bounds cleared_2x2
     (project spec_math cleared_2x2 (Vector3 (Num (1 / 5)) (Num (1 / 10)) (Num 1))
        (Matrix_Translation (Num 0) (Num 0) (Num 0)))
   \<and> pixel_index cleared_2x2 (Num 1) (Num 0) = 4
   \<and> 0 \<le> pixel_index cleared_2x2 (Num 1) (Num 0)
   \<and> pixel_index cleared_2x2 (Num 1) (Num 0) + 3
       < int (workingWidth cleared_2x2 * workingHeight cleared_2x2 * 4)"
proof -
  have b: "in_bounds cleared_2x2
     (project spec_math cleared_2x2 (Vector3 (Num (1 / 5)) (Num (1 / 10)) (Num 1))
        (Matrix_Translation (Num 0) (Num 0) (Num 0)))"
    unfolding project_sample by (simp add: in_bounds_def cleared_2x2_def)
  have i: "pixel_index cleared_2x2 (Num 1) (Num 0) = 4"
    by (simp add: pixel_index_def cleared_2x2_def trunc_def wrap32_def)
  show ?thesis
    using projected_point_index_in_buffer [OF refl b] b i by (simp add: project_sample)
qed

section \<open>What putPixel leaves alone\<close>

text \<open>
  C10. For integer coordinates inside a device of canvas size, putPixel returns a buffer of
  the same length in which every byte outside the four of pixel \<open>(x, y)\<close>, those at
  \<open>((y * width) + x) * 4\<close> and the three after it, is the byte that was there before.
\<close>

theorem putPixel_frame:
  assumes "0 \<le> x" and "x < int (workingWidth d)" and "0 \<le> y" and "y < int (workingHeight d)"
    and "canvas_size_ok d" and "backbuffer d = Some img"
    and "index = ((y * int (workingWidth d)) + x) * 4"
  shows "\<exists>d' img'. putPixel d (Num (of_int x)) (Num (of_int y)) color = Inr d'
           \<and> backbuffer d' = Some img'
           \<and> length (data img') = length (data img)
           \<and> (\<forall>k. int k < index \<or> index + 3 < int k \<longrightarrow> data img' ! k = data img ! k)"
proof -
  have "x < 2 ^ 31" and "y < 2 ^ 31"
    using assms(2,4,5) by (simp_all add: canvas_size_ok_def)
  then have i: "pixel_index d (Num (of_int x)) (Num (of_int y)) = index"
    using assms(1,3) by (simp add: pixel_index_def toInt32_of_int assms(7) del: toInt32.simps)
  let ?img' = "img\<lparr>data := put4 (data img) index color\<rparr>"
  let ?d' = "d\<lparr>backbuffer := Some ?img', backbufferdata := Some (put4 (data img) index color)\<rparr>"
  have "putPixel d (Num (of_int x)) (Num (of_int y)) color = Inr ?d'"
    using putPixel_Some [OF assms(6), of "Num (of_int x)" "Num (of_int y)" color]
    by (simp only: i)
  then show ?thesis
    by (intro exI [of _ ?d'] exI [of _ ?img']) (simp add: length_put4 put4_outside)
qed

theorem putPixel_frame_witness:
  "(0 :: int) \<le> 1 \<and> 1 < int (workingWidth cleared_2x2) \<and> canvas_size_ok cleared_2x2
   \<and> (\<exists>d' img'. putPixel cleared_2x2 (Num (of_int 1)) (Num (of_int 0))
          (Color4 (Num 1) (Num 1) (Num 0) (Num 1)) = Inr d'
        \<and> backbuffer d' = Some img'
        \<and> length (data img') = 16
        \<and> data img' ! 3 = replicate 16 0 ! 3 \<and> data img' ! 8 = replicate 16 0 ! 8)"
proof -
  have w: "workingWidth cleared_2x2 = 2" "workingHeight cleared_2x2 = 2"
    "backbuffer cleared_2x2 = Some \<lparr>img_width = 2, img_height = 2, data = replicate 16 0\<rparr>"
    and ok: "canvas_size_ok cleared_2x2"
    by (simp_all add: cleared_2x2_def canvas_size_ok_def)
  from putPixel_frame [of 1 cleared_2x2 0 _ 4 "Color4 (Num 1) (Num 1) (Num 0) (Num 1)",
      OF _ _ _ _ ok w(3)]
  obtain d' img' where p: "putPixel cleared_2x2 (Num (of_int 1)) (Num (of_int 0))
          (Color4 (Num 1) (Num 1) (Num 0) (Num 1)) = Inr d'"
    and b: "backbuffer d' = Some img'" and l: "length (data img') = 16"
    and rest: "\<forall>k. int k < 4 \<or> 4 + 3 < int k \<longrightarrow> data img' ! k = replicate 16 0 ! k"
    by (auto simp: w)
  from rest have "data img' ! 3 = replicate 16 0 ! 3" and "data img' ! 8 = replicate 16 0 ! 8"
    by simp_all
  with p b l ok show ?thesis
    by (simp add: w)
qed

section \<open>The frame\<close>

text \<open>
  C1. \<open>render_log\<close> is render together with the list of the calls it makes, and it returns
  what render returns. When render returns, that list is \<open>spec_calls\<close>: first
  \<^verbatim>\<open>Up\<close>, \<^verbatim>\<open>LookAtLH\<close> and \<^verbatim>\<open>PerspectiveFovLH\<close>; then for each mesh, in the order of the array,
  \<^verbatim>\<open>RotationYawPitchRoll\<close> of the angles y, x and z, \<^verbatim>\<open>Translation\<close> of the position, the
  products rotation \<cdot> translation, world \<cdot> view and (world \<cdot> view) \<cdot> projection; then for
  each vertex of that mesh, in index order, \<^verbatim>\<open>project\<close> of the vertex with that transform and
  \<^verbatim>\<open>drawPoint\<close> of the projected point, each once. When \<^verbatim>\<open>drawPoint\<close> throws, the list is the
  beginning of \<open>spec_calls\<close> up to that call. In either case exactly one call of the list
  builds a view matrix and exactly one a projection matrix. The device that render returns,
  or the exception it raises, is the one of \<open>render_spec\<close>.
\<close>

theorem render_calls_in_order:
  "snd (render_log M d cam ms) = render M d cam ms
   \<and> (\<exists>rest. spec_calls M d cam ms = fst (render_log M d cam ms) @ rest)
   \<and> ((\<exists>s'. render M d cam ms = Inr s')
        \<longrightarrow> fst (render_log M d cam ms) = spec_calls M d cam ms)
   \<and> length (filter builds_view (fst (render_log M d cam ms))) = 1
   \<and> length (filter builds_projection (fst (render_log M d cam ms))) = 1
   \<and> map_sum id device (render M d cam ms) = render_spec M d cam ms"
proof -
  let ?head = "[Call_Up,
      Call_LookAtLH (cam_Position cam) (cam_Target cam) (Up M),
      Call_PerspectiveFovLH (Num (78 / 100))
        (Num (real (workingWidth d)) / Num (real (workingHeight d)))
        (Num (1 / 100)) (Num 1)] :: 'a call list"
  let ?view = "LookAtLH M (cam_Position cam) (cam_Target cam) (Up M)"
  let ?projection = "PerspectiveFovLH M (Num (78 / 100))
        (Num (real (workingWidth d)) / Num (real (workingHeight d)))
        (Num (1 / 100)) (Num 1)"
  from render_log_calls [of M d cam ms] obtain made rest where
    r: "render_log M d cam ms = (?head @ made, render M d cam ms)"
    and c: "spec_calls M d cam ms = ?head @ made @ rest"
    and e: "(\<exists>s'. render M d cam ms = Inr s') \<longrightarrow> rest = []"
    by blast
  have "made @ rest = concat (map (mesh_calls M d ?view ?projection) ms)"
    using c by (simp add: spec_calls_def Let_def)
  then have "filter builds_view (made @ rest) = []"
    and "filter builds_projection (made @ rest) = []"
    by (simp_all add: filter_concat comp_def mesh_calls_build_nothing)
  then have n: "filter builds_view made = []" "filter builds_projection made = []"
    by simp_all
  have spec: "map_sum id device (render M d cam ms) = render_spec M d cam ms"
    unfolding render_def render_spec_def Let_def
    by (simp add: render_meshes_draw_all split: sum.splits)
  show ?thesis
    using c e n spec by (simp add: r)
qed

theorem render_calls_in_order_witness:
  "render spec_math cleared_2x2 sample_camera [sample_mesh]
     = Inr \<lparr>device = sample_rendered, camera = sample_camera, meshes = [sample_mesh]\<rparr>
   \<and> fst (render_log spec_math cleared_2x2 sample_camera [sample_mesh])
     = spec_calls spec_math cleared_2x2 sample_camera [sample_mesh]
   \<and> drop 8 (fst (render_log spec_math cleared_2x2 sample_camera [sample_mesh]))
     = [Call_project (Vector3 (Num 0) (Num 0) (Num 0)) sample_transform,
        Call_drawPoint (Vector2 (Num 1) (Num 1)),
        Call_project (Vector3 (Num 0) (Num 0) (Num 10)) sample_transform,
        Call_drawPoint (Vector2 (Num 0) (Num 0))]"
  using render_calls_in_order [of spec_math cleared_2x2 sample_camera "[sample_mesh]"]
    sample_render sample_calls
  by simp

text \<open>
  C9. When render returns, the camera and the array of meshes, with the name, the position,
  the rotation and the vertices of every mesh, are the ones it was called with.
\<close>

theorem render_keeps_inputs:
  assumes "render M d cam ms = Inr s'"
  shows "camera s' = cam \<and> meshes s' = ms"
  using render_meshes_keeps [of M "\<lparr>device = d, camera = cam, meshes = ms\<rparr>" _ _ 0 s'] assms
  by (simp add: render_def Let_def)

theorem render_keeps_inputs_witness:
  "render spec_math cleared_2x2 sample_camera [sample_mesh]
     = Inr \<lparr>device = sample_rendered, camera = sample_camera, meshes = [sample_mesh]\<rparr>
   \<and> camera \<lparr>device = sample_rendered, camera = sample_camera, meshes = [sample_mesh]\<rparr>
       = sample_camera
   \<and> meshes \<lparr>device = sample_rendered, camera = sample_camera, meshes = [sample_mesh]\<rparr>
       = [sample_mesh]"
  using render_keeps_inputs [OF sample_render] sample_render by simp

section \<open>The device invariant\<close>

text \<open>
  C7. The two sizes of the device are the same after clear, putPixel, drawPoint and render as
  before. clear, which returns on every device that is not empty, installs a new buffer
  of \<open>width * height * 4\<close> zero bytes, whatever the old one was; and putPixel, drawPoint and
  render, which all return on a device with such a buffer, leave a buffer of that length.
\<close>

theorem device_invariant:
  "(clear d = Inr d1 \<longrightarrow>
      workingWidth d1 = workingWidth d \<and> workingHeight d1 = workingHeight d
      \<and> backbuffer d1 = Some \<lparr>img_width = workingWidth d, img_height = workingHeight d,
           data = replicate (workingWidth d * workingHeight d * 4) 0\<rparr>
      \<and> buffer_ok d1)
   \<and> (putPixel d x y color = Inr d2 \<longrightarrow>
      workingWidth d2 = workingWidth d \<and> workingHeight d2 = workingHeight d
      \<and> (buffer_ok d \<longrightarrow> buffer_ok d2))
   \<and> (drawPoint d p = Inr d3 \<longrightarrow>
      workingWidth d3 = workingWidth d \<and> workingHeight d3 = workingHeight d
      \<and> (buffer_ok d \<longrightarrow> buffer_ok d3))
   \<and> (render M d cam ms = Inr s \<longrightarrow>
      workingWidth (device s) = workingWidth d \<and> workingHeight (device s) = workingHeight d
      \<and> (buffer_ok d \<longrightarrow> buffer_ok (device s)))
   \<and> (0 < workingWidth d \<and> 0 < workingHeight d \<longrightarrow> (\<exists>d'. clear d = Inr d'))
   \<and> (buffer_ok d \<longrightarrow>
      (\<exists>d'. putPixel d x y color = Inr d') \<and> (\<exists>d'. drawPoint d p = Inr d')
      \<and> (\<exists>s'. render M d cam ms = Inr s'))"
proof (intro conjI impI)
  assume c: "clear d = Inr d1"
  then have nz: "workingWidth d \<noteq> 0" "workingHeight d \<noteq> 0"
    and d1: "d1 = d\<lparr>backbuffer := Some
        \<lparr>img_width = workingWidth d, img_height = workingHeight d,
         data = replicate (workingWidth d * workingHeight d * 4) 0\<rparr>\<rparr>"
    by (auto simp: clear_def split: if_splits)
  show "workingWidth d1 = workingWidth d" "workingHeight d1 = workingHeight d"
    "backbuffer d1 = Some \<lparr>img_width = workingWidth d, img_height = workingHeight d,
           data = replicate (workingWidth d * workingHeight d * 4) 0\<rparr>"
    "buffer_ok d1"
    by (simp_all add: d1 buffer_ok_def)
next
  assume "putPixel d x y color = Inr d2"
  from putPixel_keeps [OF this]
  show "workingWidth d2 = workingWidth d" "workingHeight d2 = workingHeight d"
    "buffer_ok d \<Longrightarrow> buffer_ok d2"
    by simp_all
next
  assume "drawPoint d p = Inr d3"
  from drawPoint_keeps [OF this]
  show "workingWidth d3 = workingWidth d" "workingHeight d3 = workingHeight d"
    "buffer_ok d \<Longrightarrow> buffer_ok d3"
    by simp_all
next
  assume "render M d cam ms = Inr s"
  then have "render_meshes M \<lparr>device = d, camera = cam, meshes = ms\<rparr>
      (LookAtLH M (cam_Position cam) (cam_Target cam) (Up M))
      (PerspectiveFovLH M (Num (78 / 100))
         (Num (real (workingWidth d)) / Num (real (workingHeight d))) (Num (1 / 100)) (Num 1)) 0
      = Inr s"
    by (simp add: render_def Let_def)
  from render_meshes_keeps [OF this]
  show "workingWidth (device s) = workingWidth d" "workingHeight (device s) = workingHeight d"
    "buffer_ok d \<Longrightarrow> buffer_ok (device s)"
    by simp_all
next
  assume "0 < workingWidth d \<and> 0 < workingHeight d"
  then show "\<exists>d'. clear d = Inr d'" by (simp add: clear_def)
next
  assume ok: "buffer_ok d"
  show "\<exists>d'. putPixel d x y color = Inr d'" using ok by (rule putPixel_returns)
  show "\<exists>d'. drawPoint d p = Inr d'" using ok by (rule drawPoint_returns)
  show "\<exists>s'. render M d cam ms = Inr s'"
    using render_meshes_returns [of "\<lparr>device = d, camera = cam, meshes = ms\<rparr>" M] ok
    by (simp add: render_def Let_def)
qed


theorem device_invariant_witness:
  "clear cleared_2x2 = Inr cleared_2x2
   \<and> putPixel cleared_2x2 (Num 1) (Num 1) (Color4 (Num 1) (Num 1) (Num 0) (Num 1)) = Inr sample_half
   \<and> drawPoint cleared_2x2 (Vector2 (Num 1) (Num 1)) = Inr sample_half
   \<and> render spec_math cleared_2x2 sample_camera [sample_mesh]
       = Inr \<lparr>device = sample_rendered, camera = sample_camera, meshes = [sample_mesh]\<rparr>
   \<and> 0 < workingWidth cleared_2x2 \<and> 0 < workingHeight cleared_2x2
   \<and> buffer_ok cleared_2x2 \<and> buffer_ok sample_half \<and> buffer_ok sample_rendered
   \<and> workingWidth sample_half = workingWidth cleared_2x2
   \<and> workingHeight sample_half = workingHeight cleared_2x2
   \<and> workingWidth sample_rendered = workingWidth cleared_2x2
   \<and> workingHeight sample_rendered = workingHeight cleared_2x2"
proof -
  have c: "clear cleared_2x2 = Inr cleared_2x2"
    by (simp add: clear_def cleared_2x2_def)
  have p: "putPixel cleared_2x2 (Num 1) (Num 1) (Color4 (Num 1) (Num 1) (Num 0) (Num 1))
      = Inr sample_half"
    using sample_draw_0 by (simp add: drawPoint_def in_bounds_def cleared_2x2_def)
  have ok: "buffer_ok cleared_2x2" and w: "0 < workingWidth cleared_2x2"
    and h: "0 < workingHeight cleared_2x2"
    by (simp_all add: buffer_ok_def cleared_2x2_def)
  show ?thesis
    using device_invariant [where d = cleared_2x2 and ?d1.0 = cleared_2x2
        and x = "Num 1" and y = "Num 1" and color = "Color4 (Num 1) (Num 1) (Num 0) (Num 1)"
        and ?d2.0 = sample_half and p = "Vector2 (Num 1) (Num 1)" and ?d3.0 = sample_half
        and M = spec_math and cam = sample_camera and ms = "[sample_mesh]"
        and s = "\<lparr>device = sample_rendered, camera = sample_camera, meshes = [sample_mesh]\<rparr>"]
      c p sample_draw_0 sample_render ok w h
    by simp
qed

end
